theory Spec2Isabelle
  imports Complex_Main "HOL-Library.Word" "HOL-Library.Monad_Syntax"
begin

section \<open>Prometheus instrumentation of gRPC calls: data model\<close>

text \<open>
  The call shape (\<^verbatim>\<open>grpcType\<close>) labels every series.  A status code is
  \<^verbatim>\<open>codes.Code\<close>, an unsigned 32-bit integer of the gRPC library; the three
  codes the package names are given below with the library's numbers.
\<close>

datatype grpcType = Unary | ClientStream | ServerStream | BidiStream

type_synonym Code = "32 word"

definition codes_OK :: Code where
  "codes_OK = 0"

definition codes_Unknown :: Code where
  "codes_Unknown = 2"

definition codes_NotFound :: Code where
  "codes_NotFound = 5"

text \<open>
  A Go \<^verbatim>\<open>error\<close> value is \<^verbatim>\<open>nil\<close> (\<open>None\<close>) or one of: the
  sentinel \<^verbatim>\<open>io.EOF\<close>, an error that carries a gRPC status, or any other error
  (which carries only its text).
\<close>

datatype Status = Status Code string

datatype error = EOF | StatusError Status | OtherError string

text \<open>
  \<^verbatim>\<open>status.FromError\<close> of the gRPC library: a nil error gives a nil status;
  an error with a status gives that status; any other error gives a status with code
  Unknown and the error's text.  The second component says whether a status was found.
\<close>

fun error_text :: "error \<Rightarrow> string" where
  "error_text EOF = ''EOF''"
| "error_text (StatusError (Status c msg)) = msg"
| "error_text (OtherError msg) = msg"

fun status_FromError :: "error option \<Rightarrow> Status option \<times> bool" where
  "status_FromError None = (None, True)"
| "status_FromError (Some (StatusError st)) = (Some st, True)"
| "status_FromError (Some e) = (Some (Status codes_Unknown (error_text e)), False)"

text \<open>\<^verbatim>\<open>(*Status).Code\<close>: the code of a nil status is OK.\<close>

fun Status_Code :: "Status option \<Rightarrow> Code" where
  "Status_Code None = codes_OK"
| "Status_Code (Some (Status c msg)) = c"

text \<open>\<^verbatim>\<open>grpc.Code\<close>, the older accessor the server side uses: OK for nil,
  the status code of a status error, Unknown for any other error.\<close>

fun grpc_Code :: "error option \<Rightarrow> Code" where
  "grpc_Code None = codes_OK"
| "grpc_Code (Some (StatusError (Status c msg))) = c"
| "grpc_Code (Some e) = codes_Unknown"

subsection \<open>Call descriptors and the stream shape\<close>

record StreamDesc =
  ClientStreams :: bool
  ServerStreams :: bool

text \<open>Both server-side descriptors carry the full method name; the streaming one adds
  the two flags.\<close>

record UnaryServerInfo =
  FullMethod :: string

record StreamServerInfo = UnaryServerInfo +
  IsClientStream :: bool
  IsServerStream :: bool

definition clientStreamType :: "StreamDesc \<Rightarrow> grpcType" where
  "clientStreamType desc =
     (if ClientStreams desc \<and> \<not> ServerStreams desc then ClientStream
      else if \<not> ClientStreams desc \<and> ServerStreams desc then ServerStream
      else BidiStream)"

definition streamRpcType :: "StreamServerInfo \<Rightarrow> grpcType" where
  "streamRpcType info =
     (if IsClientStream info \<and> \<not> IsServerStream info then ClientStream
      else if \<not> IsClientStream info \<and> IsServerStream info then ServerStream
      else BidiStream)"


section \<open>Series vectors of the metrics library\<close>

text \<open>
  A vector maps a tuple of label values to one series.  The Go code passes the label
  values as strings (\<^verbatim>\<open>string(rpcType)\<close>, the service and method names,
  \<^verbatim>\<open>code.String()\<close>); the model keeps each value with its kind, which is the
  same key since both conversions are injective.  The series of a vector are an
  association list in order of creation.  A counter series holds its count; a histogram
  series holds the number of observations made on it (the observed durations are
  wall-clock time and are not modelled).  The number of label values always matches the
  vector's label names at the call sites of this package, so the library's arity check is
  left out.
\<close>

datatype label_value = LType grpcType | LStr string | LCode Code

type_synonym series = "(label_value list \<times> nat) list"

record CounterOpts =
  Name :: string
  Help :: string

record HistogramOpts = CounterOpts +
  Buckets :: "real list"

record Desc =
  fqName :: string
  helpText :: string
  variableLabels :: "string list"

record Metric =
  mDesc :: Desc
  mLabelValues :: "label_value list"
  mValue :: nat

record CounterVec =
  cDesc :: Desc
  cSeries :: series

record HistogramVec =
  hDesc :: Desc
  hBuckets :: "real list"
  hSeries :: series

definition DefBuckets :: "real list" where
  "DefBuckets = [0.005, 0.01, 0.025, 0.05, 0.1, 0.25, 0.5, 1, 2.5, 5, 10]"

definition NewCounterVec :: "CounterOpts \<Rightarrow> string list \<Rightarrow> CounterVec" where
  "NewCounterVec opts labelNames =
     \<lparr>cDesc = \<lparr>fqName = Name opts, helpText = Help opts, variableLabels = labelNames\<rparr>,
      cSeries = []\<rparr>"

definition NewHistogramVec :: "HistogramOpts \<Rightarrow> string list \<Rightarrow> HistogramVec" where
  "NewHistogramVec opts labelNames =
     \<lparr>hDesc = \<lparr>fqName = Name opts, helpText = Help opts, variableLabels = labelNames\<rparr>,
      hBuckets = Buckets opts,
      hSeries = []\<rparr>"

text \<open>Looking a tuple up creates its series, at zero, when there is none yet.\<close>

definition getOrCreate :: "label_value list \<Rightarrow> series \<Rightarrow> series" where
  "getOrCreate lvs xs = (case map_of xs lvs of None \<Rightarrow> xs @ [(lvs, 0)] | Some n \<Rightarrow> xs)"

definition addOne :: "label_value list \<Rightarrow> series \<Rightarrow> series" where
  "addOne lvs xs = map (\<lambda>(k, n). if k = lvs then (k, n + 1) else (k, n)) (getOrCreate lvs xs)"

definition seriesValue :: "series \<Rightarrow> label_value list \<Rightarrow> nat" where
  "seriesValue xs lvs = (case map_of xs lvs of None \<Rightarrow> 0 | Some n \<Rightarrow> n)"

text \<open>\<^verbatim>\<open>GetMetricWithLabelValues\<close> only references the series;
  \<^verbatim>\<open>WithLabelValues(...).Inc()\<close> and \<^verbatim>\<open>WithLabelValues(...).Observe(d)\<close>
  reference it and count one more.\<close>

definition CounterVec_GetMetricWithLabelValues :: "CounterVec \<Rightarrow> label_value list \<Rightarrow> CounterVec" where
  "CounterVec_GetMetricWithLabelValues v lvs = v\<lparr>cSeries := getOrCreate lvs (cSeries v)\<rparr>"

definition CounterVec_Inc :: "CounterVec \<Rightarrow> label_value list \<Rightarrow> CounterVec" where
  "CounterVec_Inc v lvs = v\<lparr>cSeries := addOne lvs (cSeries v)\<rparr>"

definition HistogramVec_GetMetricWithLabelValues :: "HistogramVec \<Rightarrow> label_value list \<Rightarrow> HistogramVec" where
  "HistogramVec_GetMetricWithLabelValues v lvs = v\<lparr>hSeries := getOrCreate lvs (hSeries v)\<rparr>"

definition HistogramVec_Observe :: "HistogramVec \<Rightarrow> label_value list \<Rightarrow> HistogramVec" where
  "HistogramVec_Observe v lvs = v\<lparr>hSeries := addOne lvs (hSeries v)\<rparr>"

text \<open>
  The collector methods of a vector write to a channel, here the list of what has been
  sent so far.  A histogram vector is held by pointer and starts out nil: calling a method
  on the nil pointer panics (\<open>None\<close>).
\<close>

definition CounterVec_Describe :: "CounterVec \<Rightarrow> Desc list \<Rightarrow> Desc list" where
  "CounterVec_Describe v ch = ch @ [cDesc v]"

definition CounterVec_Collect :: "CounterVec \<Rightarrow> Metric list \<Rightarrow> Metric list" where
  "CounterVec_Collect v ch =
     ch @ map (\<lambda>(lvs, n). \<lparr>mDesc = cDesc v, mLabelValues = lvs, mValue = n\<rparr>) (cSeries v)"

definition HistogramVec_Describe :: "HistogramVec option \<Rightarrow> Desc list \<Rightarrow> Desc list option" where
  "HistogramVec_Describe p ch = (case p of None \<Rightarrow> None | Some v \<Rightarrow> Some (ch @ [hDesc v]))"

definition HistogramVec_Collect :: "HistogramVec option \<Rightarrow> Metric list \<Rightarrow> Metric list option" where
  "HistogramVec_Collect p ch =
     (case p of None \<Rightarrow> None
      | Some v \<Rightarrow>
          Some (ch @ map (\<lambda>(lvs, n). \<lparr>mDesc = hDesc v, mLabelValues = lvs, mValue = n\<rparr>) (hSeries v)))"

section \<open>The server registry\<close>

text \<open>The four counter vectors are allocated by the constructor and never reassigned;
  the model holds them by value.\<close>

record ServerMetrics =
  serverStartedCounter :: CounterVec
  serverHandledCounter :: CounterVec
  serverStreamMsgReceived :: CounterVec
  serverStreamMsgSent :: CounterVec
  serverHandledHistogramEnabled :: bool
  serverHandledHistogramOpts :: HistogramOpts
  serverHandledHistogram :: "HistogramVec option"

definition NewServerMetrics :: ServerMetrics where
  "NewServerMetrics =
     \<lparr>serverStartedCounter = NewCounterVec
        \<lparr>Name = ''grpc_server_started_total'',
         Help = ''Total number of RPCs started on the server.''\<rparr>
        [''grpc_type'', ''grpc_service'', ''grpc_method''],
      serverHandledCounter = NewCounterVec
        \<lparr>Name = ''grpc_server_handled_total'',
         Help = ''Total number of RPCs completed on the server, regardless of success or failure.''\<rparr>
        [''grpc_type'', ''grpc_service'', ''grpc_method'', ''grpc_code''],
      serverStreamMsgReceived = NewCounterVec
        \<lparr>Name = ''grpc_server_msg_received_total'',
         Help = ''Total number of RPC stream messages received on the server.''\<rparr>
        [''grpc_type'', ''grpc_service'', ''grpc_method''],
      serverStreamMsgSent = NewCounterVec
        \<lparr>Name = ''grpc_server_msg_sent_total'',
         Help = ''Total number of gRPC stream messages sent by the server.''\<rparr>
        [''grpc_type'', ''grpc_service'', ''grpc_method''],
      serverHandledHistogramEnabled = False,
      serverHandledHistogramOpts =
        \<lparr>Name = ''grpc_server_handling_seconds'',
         Help = ''Histogram of response latency (seconds) of gRPC that had been application-level handled by the server.'',
         Buckets = DefBuckets\<rparr>,
      serverHandledHistogram = None\<rparr>"

type_synonym HistogramOption = "HistogramOpts \<Rightarrow> HistogramOpts"

definition WithHistogramBuckets :: "real list \<Rightarrow> HistogramOption" where
  "WithHistogramBuckets buckets = (\<lambda>o1. o1\<lparr>Buckets := buckets\<rparr>)"

text \<open>The loop \<^verbatim>\<open>for _, o := range opts { o(&m.xOpts) }\<close> of every enabling
  method.\<close>

definition applyOptions :: "HistogramOption list \<Rightarrow> HistogramOpts \<Rightarrow> HistogramOpts" where
  "applyOptions opts o1 = foldl (\<lambda>acc f. f acc) o1 opts"

definition EnableHandlingTimeHistogram :: "HistogramOption list \<Rightarrow> ServerMetrics \<Rightarrow> ServerMetrics" where
  "EnableHandlingTimeHistogram opts m =
     (let m = m\<lparr>serverHandledHistogramOpts := applyOptions opts (serverHandledHistogramOpts m)\<rparr>;
          m = (if \<not> serverHandledHistogramEnabled m
               then m\<lparr>serverHandledHistogram :=
                        Some (NewHistogramVec (serverHandledHistogramOpts m)
                                [''grpc_type'', ''grpc_service'', ''grpc_method''])\<rparr>
               else m)
      in m\<lparr>serverHandledHistogramEnabled := True\<rparr>)"

definition ServerMetrics_Describe :: "ServerMetrics \<Rightarrow> Desc list \<Rightarrow> Desc list option" where
  "ServerMetrics_Describe m ch0 = do {
     let ch = CounterVec_Describe (serverStartedCounter m) ch0;
     let ch = CounterVec_Describe (serverHandledCounter m) ch;
     let ch = CounterVec_Describe (serverStreamMsgReceived m) ch;
     let ch = CounterVec_Describe (serverStreamMsgSent m) ch;
     if serverHandledHistogramEnabled m
     then HistogramVec_Describe (serverHandledHistogram m) ch
     else Some ch
   }"

definition ServerMetrics_Collect :: "ServerMetrics \<Rightarrow> Metric list \<Rightarrow> Metric list option" where
  "ServerMetrics_Collect m ch0 = do {
     let ch = CounterVec_Collect (serverStartedCounter m) ch0;
     let ch = CounterVec_Collect (serverHandledCounter m) ch;
     let ch = CounterVec_Collect (serverStreamMsgReceived m) ch;
     let ch = CounterVec_Collect (serverStreamMsgSent m) ch;
     if serverHandledHistogramEnabled m
     then HistogramVec_Collect (serverHandledHistogram m) ch
     else Some ch
   }"


section \<open>The client registry\<close>

record ClientMetrics =
  clientStartedCounter :: CounterVec
  clientStartedCounterOpts :: CounterOpts
  clientHandledCounter :: CounterVec
  clientStreamMsgReceived :: CounterVec
  clientStreamMsgSent :: CounterVec
  clientHandledHistogramEnabled :: bool
  clientHandledHistogramOpts :: HistogramOpts
  clientHandledHistogram :: "HistogramVec option"
  clientStreamRecvHistogramEnabled :: bool
  clientStreamRecvHistogramOpts :: HistogramOpts
  clientStreamRecvHistogram :: "HistogramVec option"
  clientStreamSendHistogramEnabled :: bool
  clientStreamSendHistogramOpts :: HistogramOpts
  clientStreamSendHistogram :: "HistogramVec option"
  clientMsgSizeReceivedHistogramEnabled :: bool
  clientMsgSizeReceivedHistogramOpts :: HistogramOpts
  clientMsgSizeReceivedHistogram :: "HistogramVec option"
  clientMsgSizeSentHistogramEnabled :: bool
  clientMsgSizeSentHistogramOpts :: HistogramOpts
  clientMsgSizeSentHistogram :: "HistogramVec option"

text \<open>
  The constructor takes the caller's counter options; \<open>apply\<close> is their combined
  effect on a \<^verbatim>\<open>CounterOpts\<close> value (\<^verbatim>\<open>opts.apply\<close>), and
  \<open>defMsgBytesBuckets\<close> is the package's default bucket list for message sizes; the
  declarations of both lie outside the two files modelled here, so both are parameters.
  The field \<^verbatim>\<open>clientStartedCounterOpts\<close> is not set by the constructor and
  keeps Go's zero value.
\<close>

definition NewClientMetrics :: "(CounterOpts \<Rightarrow> CounterOpts) \<Rightarrow> real list \<Rightarrow> ClientMetrics" where
  "NewClientMetrics apply defMsgBytesBuckets =
     \<lparr>clientStartedCounter = NewCounterVec
        (apply \<lparr>Name = ''grpc_client_started_total'',
                Help = ''Total number of RPCs started on the client.''\<rparr>)
        [''grpc_type'', ''grpc_service'', ''grpc_method''],
      clientStartedCounterOpts = \<lparr>Name = [], Help = []\<rparr>,
      clientHandledCounter = NewCounterVec
        (apply \<lparr>Name = ''grpc_client_handled_total'',
                Help = ''Total number of RPCs completed by the client, regardless of success or failure.''\<rparr>)
        [''grpc_type'', ''grpc_service'', ''grpc_method'', ''grpc_code''],
      clientStreamMsgReceived = NewCounterVec
        (apply \<lparr>Name = ''grpc_client_msg_received_total'',
                Help = ''Total number of RPC stream messages received by the client.''\<rparr>)
        [''grpc_type'', ''grpc_service'', ''grpc_method''],
      clientStreamMsgSent = NewCounterVec
        (apply \<lparr>Name = ''grpc_client_msg_sent_total'',
                Help = ''Total number of gRPC stream messages sent by the client.''\<rparr>)
        [''grpc_type'', ''grpc_service'', ''grpc_method''],
      clientHandledHistogramEnabled = False,
      clientHandledHistogramOpts =
        \<lparr>Name = ''grpc_client_handling_seconds'',
         Help = ''Histogram of response latency (seconds) of the gRPC until it is finished by the application.'',
         Buckets = DefBuckets\<rparr>,
      clientHandledHistogram = None,
      clientStreamRecvHistogramEnabled = False,
      clientStreamRecvHistogramOpts =
        \<lparr>Name = ''grpc_client_msg_recv_handling_seconds'',
         Help = ''Histogram of response latency (seconds) of the gRPC single message receive.'',
         Buckets = DefBuckets\<rparr>,
      clientStreamRecvHistogram = None,
      clientStreamSendHistogramEnabled = False,
      clientStreamSendHistogramOpts =
        \<lparr>Name = ''grpc_client_msg_send_handling_seconds'',
         Help = ''Histogram of response latency (seconds) of the gRPC single message send.'',
         Buckets = DefBuckets\<rparr>,
      clientStreamSendHistogram = None,
      clientMsgSizeReceivedHistogramEnabled = False,
      clientMsgSizeReceivedHistogramOpts =
        \<lparr>Name = ''grpc_client_msg_size_received_bytes'',
         Help = ''Histogram of message sizes received by the client.'',
         Buckets = defMsgBytesBuckets\<rparr>,
      clientMsgSizeReceivedHistogram = None,
      clientMsgSizeSentHistogramEnabled = False,
      clientMsgSizeSentHistogramOpts =
        \<lparr>Name = ''grpc_client_msg_size_sent_bytes'',
         Help = ''Histogram of message sizes sent by the client.'',
         Buckets = defMsgBytesBuckets\<rparr>,
      clientMsgSizeSentHistogram = None\<rparr>"

definition ClientMetrics_Describe :: "ClientMetrics \<Rightarrow> Desc list \<Rightarrow> Desc list option" where
  "ClientMetrics_Describe m ch0 = do {
     let ch = CounterVec_Describe (clientStartedCounter m) ch0;
     let ch = CounterVec_Describe (clientHandledCounter m) ch;
     let ch = CounterVec_Describe (clientStreamMsgReceived m) ch;
     let ch = CounterVec_Describe (clientStreamMsgSent m) ch;
     ch \<leftarrow> (if clientHandledHistogramEnabled m
            then HistogramVec_Describe (clientHandledHistogram m) ch
            else Some ch);
     ch \<leftarrow> (if clientStreamRecvHistogramEnabled m
            then HistogramVec_Describe (clientStreamRecvHistogram m) ch
            else Some ch);
     ch \<leftarrow> (if clientStreamSendHistogramEnabled m
            then HistogramVec_Describe (clientStreamSendHistogram m) ch
            else Some ch);
     ch \<leftarrow> (if clientMsgSizeReceivedHistogramEnabled m
            then HistogramVec_Describe (clientMsgSizeReceivedHistogram m) ch
            else Some ch);
     ch \<leftarrow> (if clientMsgSizeSentHistogramEnabled m
            then HistogramVec_Describe (clientMsgSizeSentHistogram m) ch
            else Some ch);
     Some ch
   }"

definition ClientMetrics_Collect :: "ClientMetrics \<Rightarrow> Metric list \<Rightarrow> Metric list option" where
  "ClientMetrics_Collect m ch0 = do {
     let ch = CounterVec_Collect (clientStartedCounter m) ch0;
     let ch = CounterVec_Collect (clientHandledCounter m) ch;
     let ch = CounterVec_Collect (clientStreamMsgReceived m) ch;
     let ch = CounterVec_Collect (clientStreamMsgSent m) ch;
     ch \<leftarrow> (if clientHandledHistogramEnabled m
            then HistogramVec_Collect (clientHandledHistogram m) ch
            else Some ch);
     ch \<leftarrow> (if clientStreamRecvHistogramEnabled m
            then HistogramVec_Collect (clientStreamRecvHistogram m) ch
            else Some ch);
     ch \<leftarrow> (if clientStreamSendHistogramEnabled m
            then HistogramVec_Collect (clientStreamSendHistogram m) ch
            else Some ch);
     ch \<leftarrow> (if clientMsgSizeReceivedHistogramEnabled m
            then HistogramVec_Collect (clientMsgSizeReceivedHistogram m) ch
            else Some ch);
     ch \<leftarrow> (if clientMsgSizeSentHistogramEnabled m
            then HistogramVec_Collect (clientMsgSizeSentHistogram m) ch
            else Some ch);
     Some ch
   }"

definition EnableClientHandlingTimeHistogram :: "HistogramOption list \<Rightarrow> ClientMetrics \<Rightarrow> ClientMetrics" where
  "EnableClientHandlingTimeHistogram opts m =
     (let m = m\<lparr>clientHandledHistogramOpts := applyOptions opts (clientHandledHistogramOpts m)\<rparr>;
          m = (if \<not> clientHandledHistogramEnabled m
               then m\<lparr>clientHandledHistogram :=
                        Some (NewHistogramVec (clientHandledHistogramOpts m)
                                [''grpc_type'', ''grpc_service'', ''grpc_method''])\<rparr>
               else m)
      in m\<lparr>clientHandledHistogramEnabled := True\<rparr>)"

definition EnableClientStreamReceiveTimeHistogram :: "HistogramOption list \<Rightarrow> ClientMetrics \<Rightarrow> ClientMetrics" where
  "EnableClientStreamReceiveTimeHistogram opts m =
     (let m = m\<lparr>clientStreamRecvHistogramOpts := applyOptions opts (clientStreamRecvHistogramOpts m)\<rparr>;
          m = (if \<not> clientStreamRecvHistogramEnabled m
               then m\<lparr>clientStreamRecvHistogram :=
                        Some (NewHistogramVec (clientStreamRecvHistogramOpts m)
                                [''grpc_type'', ''grpc_service'', ''grpc_method''])\<rparr>
               else m)
      in m\<lparr>clientStreamRecvHistogramEnabled := True\<rparr>)"

definition EnableClientStreamSendTimeHistogram :: "HistogramOption list \<Rightarrow> ClientMetrics \<Rightarrow> ClientMetrics" where
  "EnableClientStreamSendTimeHistogram opts m =
     (let m = m\<lparr>clientStreamSendHistogramOpts := applyOptions opts (clientStreamSendHistogramOpts m)\<rparr>;
          m = (if \<not> clientStreamSendHistogramEnabled m
               then m\<lparr>clientStreamSendHistogram :=
                        Some (NewHistogramVec (clientStreamSendHistogramOpts m)
                                [''grpc_type'', ''grpc_service'', ''grpc_method''])\<rparr>
               else m)
      in m\<lparr>clientStreamSendHistogramEnabled := True\<rparr>)"

definition EnableMsgSizeReceivedBytesHistogram :: "HistogramOption list \<Rightarrow> ClientMetrics \<Rightarrow> ClientMetrics" where
  "EnableMsgSizeReceivedBytesHistogram opts m =
     (let m = m\<lparr>clientMsgSizeReceivedHistogramOpts := applyOptions opts (clientMsgSizeReceivedHistogramOpts m)\<rparr>;
          m = (if \<not> clientMsgSizeReceivedHistogramEnabled m
               then m\<lparr>clientMsgSizeReceivedHistogram :=
                        Some (NewHistogramVec (clientMsgSizeReceivedHistogramOpts m)
                                [''grpc_service'', ''grpc_method'', ''grpc_stats''])\<rparr>
               else m)
      in m\<lparr>clientMsgSizeReceivedHistogramEnabled := True\<rparr>)"

definition EnableMsgSizeSentBytesHistogram :: "HistogramOption list \<Rightarrow> ClientMetrics \<Rightarrow> ClientMetrics" where
  "EnableMsgSizeSentBytesHistogram opts m =
     (let m = m\<lparr>clientMsgSizeSentHistogramOpts := applyOptions opts (clientMsgSizeSentHistogramOpts m)\<rparr>;
          m = (if \<not> clientMsgSizeSentHistogramEnabled m
               then m\<lparr>clientMsgSizeSentHistogram :=
                        Some (NewHistogramVec (clientMsgSizeSentHistogramOpts m)
                                [''grpc_service'', ''grpc_method'', ''grpc_stats''])\<rparr>
               else m)
      in m\<lparr>clientMsgSizeSentHistogramEnabled := True\<rparr>)"


section \<open>Call reporters\<close>

text \<open>
  An interceptor works on the registry it was made from and, through it, on the shared
  series.  The state threaded through a call is the registry together with the list of
  the calls made so far, in order: the calls on the reporter and its timers, and the call
  of the wrapped handler, invoker, streamer or embedded stream.
\<close>

datatype call =
    CallNewReporter grpcType string
  | CallSentMessage
  | CallReceivedMessage
  | CallHandled Code
  | CallSendMessageTimer
  | CallReceiveMessageTimer
  | CallObserveDuration
  | CallHandler
  | CallInvoker
  | CallStreamer
  | CallStreamSendMsg
  | CallStreamRecvMsg

record 'm world =
  metrics :: 'm
  calls :: "call list"

definition logCall :: "call \<Rightarrow> 'm world \<Rightarrow> 'm world" where
  "logCall c w = w\<lparr>calls := calls w @ [c]\<rparr>"

text \<open>The wrapped function is opaque: it is given by what it returns.\<close>

definition wrapped :: "call \<Rightarrow> 'a \<Rightarrow> 'm world \<Rightarrow> 'a \<times> 'm world" where
  "wrapped c res w = (res, logCall c w)"

text \<open>
  The reporter of one call holds the call's label tuple.  Its pointer to the registry is
  the registry of the state; its start time is wall-clock time and is not modelled.
  The same three fields make up the client and the server reporter.
\<close>

record reporter =
  rpcType :: grpcType
  serviceName :: string
  methodName :: string

definition labels3 :: "reporter \<Rightarrow> label_value list" where
  "labels3 r = [LType (rpcType r), LStr (serviceName r), LStr (methodName r)]"

definition labels4 :: "reporter \<Rightarrow> Code \<Rightarrow> label_value list" where
  "labels4 r code = [LType (rpcType r), LStr (serviceName r), LStr (methodName r), LCode code]"

text \<open>A histogram held by pointer is observed only when it is there.\<close>

definition observeOn :: "HistogramVec option \<Rightarrow> label_value list \<Rightarrow> HistogramVec option" where
  "observeOn p lvs = (case p of None \<Rightarrow> None | Some v \<Rightarrow> Some (HistogramVec_Observe v lvs))"

text \<open>
  Modelled from the spec: \<^verbatim>\<open>newServerReporter\<close> (the server reporter's
  file is not among the sources).  Created: binds the reporter to (shape, service,
  method) and increments the started counter for that tuple.  How the full method name
  splits into service and method is not in the spec: \<open>split\<close> is a parameter.
\<close>

definition newServerReporter ::
  "(string \<Rightarrow> string \<times> string) \<Rightarrow> grpcType \<Rightarrow> string \<Rightarrow> ServerMetrics world
     \<Rightarrow> reporter \<times> ServerMetrics world" where
  "newServerReporter split rpcType0 fullMethod w =
     (let (service, method) = split fullMethod;
          r = \<lparr>rpcType = rpcType0, serviceName = service, methodName = method\<rparr>;
          m = metrics w
      in (r, logCall (CallNewReporter rpcType0 fullMethod)
               (w\<lparr>metrics := m\<lparr>serverStartedCounter :=
                                   CounterVec_Inc (serverStartedCounter m) (labels3 r)\<rparr>\<rparr>)))"

text \<open>
  Modelled from the spec: \<^verbatim>\<open>serverReporter.ReceivedMessage\<close>: increments
  "messages received" for the reporter's tuple.
\<close>

definition serverReporter_ReceivedMessage :: "reporter \<Rightarrow> ServerMetrics world \<Rightarrow> ServerMetrics world" where
  "serverReporter_ReceivedMessage r w =
     (let m = metrics w
      in logCall CallReceivedMessage
           (w\<lparr>metrics := m\<lparr>serverStreamMsgReceived :=
                               CounterVec_Inc (serverStreamMsgReceived m) (labels3 r)\<rparr>\<rparr>))"

text \<open>
  Modelled from the spec: \<^verbatim>\<open>serverReporter.SentMessage\<close>: increments
  "messages sent" for the reporter's tuple.
\<close>

definition serverReporter_SentMessage :: "reporter \<Rightarrow> ServerMetrics world \<Rightarrow> ServerMetrics world" where
  "serverReporter_SentMessage r w =
     (let m = metrics w
      in logCall CallSentMessage
           (w\<lparr>metrics := m\<lparr>serverStreamMsgSent :=
                               CounterVec_Inc (serverStreamMsgSent m) (labels3 r)\<rparr>\<rparr>))"

text \<open>
  Modelled from the spec: \<^verbatim>\<open>serverReporter.Handled\<close>: increments the
  handled counter for (shape, service, method, code) and, if the handling-time
  histogram is enabled, observes the elapsed time on it for (shape, service, method).
\<close>

definition serverReporter_Handled :: "reporter \<Rightarrow> Code \<Rightarrow> ServerMetrics world \<Rightarrow> ServerMetrics world" where
  "serverReporter_Handled r code w =
     (let m = metrics w;
          m = m\<lparr>serverHandledCounter := CounterVec_Inc (serverHandledCounter m) (labels4 r code)\<rparr>;
          m = (if serverHandledHistogramEnabled m
               then m\<lparr>serverHandledHistogram := observeOn (serverHandledHistogram m) (labels3 r)\<rparr>
               else m)
      in logCall (CallHandled code) (w\<lparr>metrics := m\<rparr>))"

text \<open>
  Modelled from the spec: \<^verbatim>\<open>newClientReporter\<close> (the client reporter's
  file is not among the sources).  Created: binds the reporter to (shape, service,
  method) and increments the started counter for that tuple; \<open>split\<close> is a
  parameter as on the server side.
\<close>

definition newClientReporter ::
  "(string \<Rightarrow> string \<times> string) \<Rightarrow> grpcType \<Rightarrow> string \<Rightarrow> ClientMetrics world
     \<Rightarrow> reporter \<times> ClientMetrics world" where
  "newClientReporter split rpcType0 fullMethod w =
     (let (service, method) = split fullMethod;
          r = \<lparr>rpcType = rpcType0, serviceName = service, methodName = method\<rparr>;
          m = metrics w
      in (r, logCall (CallNewReporter rpcType0 fullMethod)
               (w\<lparr>metrics := m\<lparr>clientStartedCounter :=
                                   CounterVec_Inc (clientStartedCounter m) (labels3 r)\<rparr>\<rparr>)))"

text \<open>
  Modelled from the spec: \<^verbatim>\<open>clientReporter.ReceivedMessage\<close>: increments
  "messages received" for the reporter's tuple.
\<close>

definition clientReporter_ReceivedMessage :: "reporter \<Rightarrow> ClientMetrics world \<Rightarrow> ClientMetrics world" where
  "clientReporter_ReceivedMessage r w =
     (let m = metrics w
      in logCall CallReceivedMessage
           (w\<lparr>metrics := m\<lparr>clientStreamMsgReceived :=
                               CounterVec_Inc (clientStreamMsgReceived m) (labels3 r)\<rparr>\<rparr>))"

text \<open>
  Modelled from the spec: \<^verbatim>\<open>clientReporter.SentMessage\<close>: increments
  "messages sent" for the reporter's tuple.
\<close>

definition clientReporter_SentMessage :: "reporter \<Rightarrow> ClientMetrics world \<Rightarrow> ClientMetrics world" where
  "clientReporter_SentMessage r w =
     (let m = metrics w
      in logCall CallSentMessage
           (w\<lparr>metrics := m\<lparr>clientStreamMsgSent :=
                               CounterVec_Inc (clientStreamMsgSent m) (labels3 r)\<rparr>\<rparr>))"

text \<open>
  Modelled from the spec: \<^verbatim>\<open>clientReporter.Handled\<close>: increments the
  handled counter for (shape, service, method, code) and, if the handling-time
  histogram is enabled, observes the elapsed time on it for (shape, service, method).
\<close>

definition clientReporter_Handled :: "reporter \<Rightarrow> Code \<Rightarrow> ClientMetrics world \<Rightarrow> ClientMetrics world" where
  "clientReporter_Handled r code w =
     (let m = metrics w;
          m = m\<lparr>clientHandledCounter := CounterVec_Inc (clientHandledCounter m) (labels4 r code)\<rparr>;
          m = (if clientHandledHistogramEnabled m
               then m\<lparr>clientHandledHistogram := observeOn (clientHandledHistogram m) (labels3 r)\<rparr>
               else m)
      in logCall (CallHandled code) (w\<lparr>metrics := m\<rparr>))"

text \<open>A per-message timer of the client reporter is the empty timer, or one that will
  observe on the send or on the receive histogram for a label tuple.\<close>

datatype timer = emptyTimer | sendTimer "label_value list" | recvTimer "label_value list"

text \<open>
  Modelled from the spec: \<^verbatim>\<open>clientReporter.SendMessageTimer\<close>: a timer
  on the send-latency histogram for the reporter's tuple if that histogram is
  enabled, the empty timer otherwise.
\<close>

definition clientReporter_SendMessageTimer :: "reporter \<Rightarrow> ClientMetrics world \<Rightarrow> timer \<times> ClientMetrics world" where
  "clientReporter_SendMessageTimer r w =
     (if clientStreamSendHistogramEnabled (metrics w)
      then (sendTimer (labels3 r), logCall CallSendMessageTimer w)
      else (emptyTimer, logCall CallSendMessageTimer w))"

text \<open>
  Modelled from the spec: \<^verbatim>\<open>clientReporter.ReceiveMessageTimer\<close>: a timer
  on the receive-latency histogram for the reporter's tuple if that histogram is
  enabled, the empty timer otherwise.
\<close>

definition clientReporter_ReceiveMessageTimer :: "reporter \<Rightarrow> ClientMetrics world \<Rightarrow> timer \<times> ClientMetrics world" where
  "clientReporter_ReceiveMessageTimer r w =
     (if clientStreamRecvHistogramEnabled (metrics w)
      then (recvTimer (labels3 r), logCall CallReceiveMessageTimer w)
      else (emptyTimer, logCall CallReceiveMessageTimer w))"

text \<open>
  Modelled from the spec: \<^verbatim>\<open>timer.ObserveDuration\<close>: stops the timer and
  observes the elapsed time on its histogram; the empty timer observes nothing.
\<close>

fun timer_ObserveDuration :: "timer \<Rightarrow> ClientMetrics world \<Rightarrow> ClientMetrics world" where
  "timer_ObserveDuration emptyTimer w = logCall CallObserveDuration w"
| "timer_ObserveDuration (sendTimer lvs) w =
     (let m = metrics w
      in logCall CallObserveDuration
           (w\<lparr>metrics := m\<lparr>clientStreamSendHistogram := observeOn (clientStreamSendHistogram m) lvs\<rparr>\<rparr>))"
| "timer_ObserveDuration (recvTimer lvs) w =
     (let m = metrics w
      in logCall CallObserveDuration
           (w\<lparr>metrics := m\<lparr>clientStreamRecvHistogram := observeOn (clientStreamRecvHistogram m) lvs\<rparr>\<rparr>))"

section \<open>The decorated streams\<close>

text \<open>
  A decorated stream embeds the stream it wraps and holds the call's reporter.  What the
  embedded stream answers to a send or a receive is an argument (\<open>res\<close>) of the
  decorated method.
\<close>

record 's monitoredStream =
  Stream :: 's
  monitor :: reporter

definition monitoredServerStream_SendMsg ::
  "'s monitoredStream \<Rightarrow> error option \<Rightarrow> ServerMetrics world \<Rightarrow> error option \<times> ServerMetrics world" where
  "monitoredServerStream_SendMsg s res w =
     (let (err, w) = wrapped CallStreamSendMsg res w;
          w = (if err = None then serverReporter_SentMessage (monitor s) w else w)
      in (err, w))"

definition monitoredServerStream_RecvMsg ::
  "'s monitoredStream \<Rightarrow> error option \<Rightarrow> ServerMetrics world \<Rightarrow> error option \<times> ServerMetrics world" where
  "monitoredServerStream_RecvMsg s res w =
     (let (err, w) = wrapped CallStreamRecvMsg res w;
          w = (if err = None then serverReporter_ReceivedMessage (monitor s) w else w)
      in (err, w))"

definition monitoredClientStream_SendMsg ::
  "'s monitoredStream \<Rightarrow> error option \<Rightarrow> ClientMetrics world \<Rightarrow> error option \<times> ClientMetrics world" where
  "monitoredClientStream_SendMsg s res w =
     (let (timer, w) = clientReporter_SendMessageTimer (monitor s) w;
          (err, w) = wrapped CallStreamSendMsg res w;
          w = timer_ObserveDuration timer w;
          w = (if err = None then clientReporter_SentMessage (monitor s) w else w)
      in (err, w))"

definition monitoredClientStream_RecvMsg ::
  "'s monitoredStream \<Rightarrow> error option \<Rightarrow> ClientMetrics world \<Rightarrow> error option \<times> ClientMetrics world" where
  "monitoredClientStream_RecvMsg s res w =
     (let (timer, w) = clientReporter_ReceiveMessageTimer (monitor s) w;
          (err, w) = wrapped CallStreamRecvMsg res w;
          w = timer_ObserveDuration timer w;
          w = (if err = None then clientReporter_ReceivedMessage (monitor s) w
               else if err = Some EOF then clientReporter_Handled (monitor s) codes_OK w
               else (let (st, ok) = status_FromError err
                     in clientReporter_Handled (monitor s) (Status_Code st) w))
      in (err, w))"

text \<open>
  The user of a decorated stream makes any number of sends and receives, in any order.
  One such use is the list of its calls, each with the answer of the embedded stream.
\<close>

datatype stream_op = SendMsg "error option" | RecvMsg "error option"

fun serverStreamOps :: "'s monitoredStream \<Rightarrow> stream_op list \<Rightarrow> ServerMetrics world \<Rightarrow> ServerMetrics world" where
  "serverStreamOps s [] w = w"
| "serverStreamOps s (SendMsg res # ops) w = serverStreamOps s ops (snd (monitoredServerStream_SendMsg s res w))"
| "serverStreamOps s (RecvMsg res # ops) w = serverStreamOps s ops (snd (monitoredServerStream_RecvMsg s res w))"

fun clientStreamOps :: "'s monitoredStream \<Rightarrow> stream_op list \<Rightarrow> ClientMetrics world \<Rightarrow> ClientMetrics world" where
  "clientStreamOps s [] w = w"
| "clientStreamOps s (SendMsg res # ops) w = clientStreamOps s ops (snd (monitoredClientStream_SendMsg s res w))"
| "clientStreamOps s (RecvMsg res # ops) w = clientStreamOps s ops (snd (monitoredClientStream_RecvMsg s res w))"

section \<open>The interceptors\<close>

text \<open>
  A unary handler or invoker is given by what it returns.  A stream handler is given by
  the sends and receives it makes on the stream it is handed, and the error it returns.
\<close>

definition UnaryServerInterceptor ::
  "(string \<Rightarrow> string \<times> string) \<Rightarrow> 'i UnaryServerInfo_scheme \<Rightarrow> 'r \<times> error option
     \<Rightarrow> ServerMetrics world \<Rightarrow> ('r \<times> error option) \<times> ServerMetrics world" where
  "UnaryServerInterceptor split info handler w =
     (let (monitor, w) = newServerReporter split Unary (FullMethod info) w;
          w = serverReporter_ReceivedMessage monitor w;
          ((resp, err), w) = wrapped CallHandler handler w;
          w = serverReporter_Handled monitor (grpc_Code err) w;
          w = (if err = None then serverReporter_SentMessage monitor w else w)
      in ((resp, err), w))"

definition streamHandler ::
  "stream_op list \<times> error option \<Rightarrow> 's monitoredStream \<Rightarrow> ServerMetrics world
     \<Rightarrow> error option \<times> ServerMetrics world" where
  "streamHandler handler s w =
     (let (ops, err) = handler;
          w = logCall CallHandler w
      in (err, serverStreamOps s ops w))"

definition StreamServerInterceptor ::
  "(string \<Rightarrow> string \<times> string) \<Rightarrow> 's \<Rightarrow> StreamServerInfo \<Rightarrow> stream_op list \<times> error option
     \<Rightarrow> ServerMetrics world \<Rightarrow> error option \<times> ServerMetrics world" where
  "StreamServerInterceptor split ss info handler w =
     (let (monitor, w) = newServerReporter split (streamRpcType info) (FullMethod info) w;
          (err, w) = streamHandler handler \<lparr>Stream = ss, monitor = monitor\<rparr> w;
          w = serverReporter_Handled monitor (grpc_Code err) w
      in (err, w))"

definition UnaryClientInterceptor ::
  "(string \<Rightarrow> string \<times> string) \<Rightarrow> string \<Rightarrow> error option
     \<Rightarrow> ClientMetrics world \<Rightarrow> error option \<times> ClientMetrics world" where
  "UnaryClientInterceptor split method invoker w =
     (let (monitor, w) = newClientReporter split Unary method w;
          w = clientReporter_SentMessage monitor w;
          (err, w) = wrapped CallInvoker invoker w;
          w = (if err = None then clientReporter_ReceivedMessage monitor w else w);
          (st, ok) = status_FromError err;
          w = clientReporter_Handled monitor (Status_Code st) w
      in (err, w))"

definition StreamClientInterceptor ::
  "(string \<Rightarrow> string \<times> string) \<Rightarrow> StreamDesc \<Rightarrow> string \<Rightarrow> 's \<times> error option
     \<Rightarrow> ClientMetrics world \<Rightarrow> ('s monitoredStream option \<times> error option) \<times> ClientMetrics world" where
  "StreamClientInterceptor split desc method streamer w =
     (let (monitor, w) = newClientReporter split (clientStreamType desc) method w;
          ((clientStream, err), w) = wrapped CallStreamer streamer w
      in if err \<noteq> None
         then (let (st, ok) = status_FromError err;
                   w = clientReporter_Handled monitor (Status_Code st) w
               in ((None, err), w))
         else ((Some \<lparr>Stream = clientStream, monitor = monitor\<rparr>, None), w))"

section \<open>Pre-registration of the server's methods\<close>

text \<open>
  The service enumeration of the gRPC server: per service name, its methods.  The Go map
  is ranged over in an unspecified order; here it is a list in the order of one such
  traversal.  The fields of \<^verbatim>\<open>grpc.MethodInfo\<close> carry the record's name as a
  prefix.  The function \<^verbatim>\<open>typeFromMethodInfo\<close> and the table
  \<^verbatim>\<open>allCodes\<close> are declared outside the two files modelled here and are
  parameters.
\<close>

record MethodInfo =
  MethodInfo_Name :: string
  MethodInfo_IsClientStream :: bool
  MethodInfo_IsServerStream :: bool

record ServiceInfo =
  Methods :: "MethodInfo list"

definition preRegisterMethod ::
  "(MethodInfo \<Rightarrow> grpcType) \<Rightarrow> Code list \<Rightarrow> ServerMetrics \<Rightarrow> string \<Rightarrow> MethodInfo
     \<Rightarrow> ServerMetrics option" where
  "preRegisterMethod typeFromMethodInfo allCodes metrics0 serviceName0 mInfo = do {
     let methodName0 = MethodInfo_Name mInfo;
     let methodType = typeFromMethodInfo mInfo;
     let lvs = [LType methodType, LStr serviceName0, LStr methodName0];
     let m = metrics0\<lparr>serverStartedCounter :=
                CounterVec_GetMetricWithLabelValues (serverStartedCounter metrics0) lvs\<rparr>;
     let m = m\<lparr>serverStreamMsgReceived :=
                CounterVec_GetMetricWithLabelValues (serverStreamMsgReceived m) lvs\<rparr>;
     let m = m\<lparr>serverStreamMsgSent :=
                CounterVec_GetMetricWithLabelValues (serverStreamMsgSent m) lvs\<rparr>;
     m \<leftarrow> (if serverHandledHistogramEnabled m
           then (case serverHandledHistogram m of
                   None \<Rightarrow> None
                 | Some v \<Rightarrow> Some (m\<lparr>serverHandledHistogram :=
                                       Some (HistogramVec_GetMetricWithLabelValues v lvs)\<rparr>))
           else Some m);
     Some (foldl (\<lambda>m code. m\<lparr>serverHandledCounter :=
                               CounterVec_GetMetricWithLabelValues (serverHandledCounter m)
                                 (lvs @ [LCode code])\<rparr>)
                 m allCodes)
   }"

fun InitializeMetrics_methods ::
  "(MethodInfo \<Rightarrow> grpcType) \<Rightarrow> Code list \<Rightarrow> ServerMetrics \<Rightarrow> string \<Rightarrow> MethodInfo list
     \<Rightarrow> ServerMetrics option" where
  "InitializeMetrics_methods tf codes m serviceName0 [] = Some m"
| "InitializeMetrics_methods tf codes m serviceName0 (mInfo # rest) = do {
     m' \<leftarrow> preRegisterMethod tf codes m serviceName0 mInfo;
     InitializeMetrics_methods tf codes m' serviceName0 rest
   }"

fun InitializeMetrics ::
  "(MethodInfo \<Rightarrow> grpcType) \<Rightarrow> Code list \<Rightarrow> ServerMetrics \<Rightarrow> (string \<times> ServiceInfo) list
     \<Rightarrow> ServerMetrics option" where
  "InitializeMetrics tf codes m [] = Some m"
| "InitializeMetrics tf codes m ((serviceName0, info) # rest) = do {
     m' \<leftarrow> InitializeMetrics_methods tf codes m serviceName0 (Methods info);
     InitializeMetrics tf codes m' rest
   }"


section \<open>Notions used to state the properties\<close>

subsection \<open>Reading series and call lists\<close>

definition hasSeries :: "series \<Rightarrow> label_value list \<Rightarrow> bool" where
  "hasSeries xs lvs = (map_of xs lvs \<noteq> None)"

definition histValue :: "HistogramVec option \<Rightarrow> label_value list \<Rightarrow> nat" where
  "histValue p lvs = (case p of None \<Rightarrow> 0 | Some v \<Rightarrow> seriesValue (hSeries v) lvs)"

fun isHandled :: "call \<Rightarrow> bool" where
  "isHandled (CallHandled code) = True"
| "isHandled c = False"

definition handledCount :: "call list \<Rightarrow> nat" where
  "handledCount cs = length (filter isHandled cs)"

definition observeCount :: "call list \<Rightarrow> nat" where
  "observeCount cs = length (filter (\<lambda>c. c = CallObserveDuration) cs)"

fun sendOk :: "stream_op \<Rightarrow> bool" where
  "sendOk (SendMsg None) = True"
| "sendOk x = False"

fun recvOk :: "stream_op \<Rightarrow> bool" where
  "recvOk (RecvMsg None) = True"
| "recvOk x = False"

fun recvFailed :: "stream_op \<Rightarrow> bool" where
  "recvFailed (RecvMsg (Some e)) = True"
| "recvFailed x = False"

fun isSend :: "stream_op \<Rightarrow> bool" where
  "isSend (SendMsg res) = True"
| "isSend (RecvMsg res) = False"

fun isRecv :: "stream_op \<Rightarrow> bool" where
  "isRecv (RecvMsg res) = True"
| "isRecv (SendMsg res) = False"

definition countOps :: "(stream_op \<Rightarrow> bool) \<Rightarrow> stream_op list \<Rightarrow> nat" where
  "countOps P ops = length (filter P ops)"

text \<open>The calls one send or receive on a decorated stream makes, in order.\<close>

fun serverOpCalls :: "stream_op \<Rightarrow> call list" where
  "serverOpCalls (SendMsg res) = CallStreamSendMsg # (if res = None then [CallSentMessage] else [])"
| "serverOpCalls (RecvMsg res) = CallStreamRecvMsg # (if res = None then [CallReceivedMessage] else [])"

fun clientOpCalls :: "stream_op \<Rightarrow> call list" where
  "clientOpCalls (SendMsg res) =
     [CallSendMessageTimer, CallStreamSendMsg, CallObserveDuration]
       @ (if res = None then [CallSentMessage] else [])"
| "clientOpCalls (RecvMsg res) =
     [CallReceiveMessageTimer, CallStreamRecvMsg, CallObserveDuration]
       @ (if res = None then [CallReceivedMessage]
          else if res = Some EOF then [CallHandled codes_OK]
          else [CallHandled (Status_Code (fst (status_FromError res)))])"

subsection \<open>The registry invariant and the registries the package can produce\<close>

definition serverHistogramsPresent :: "ServerMetrics \<Rightarrow> bool" where
  "serverHistogramsPresent m =
     (serverHandledHistogramEnabled m \<longrightarrow> serverHandledHistogram m \<noteq> None)"

definition clientHistogramsPresent :: "ClientMetrics \<Rightarrow> bool" where
  "clientHistogramsPresent m =
     ((clientHandledHistogramEnabled m \<longrightarrow> clientHandledHistogram m \<noteq> None)
      \<and> (clientStreamRecvHistogramEnabled m \<longrightarrow> clientStreamRecvHistogram m \<noteq> None)
      \<and> (clientStreamSendHistogramEnabled m \<longrightarrow> clientStreamSendHistogram m \<noteq> None)
      \<and> (clientMsgSizeReceivedHistogramEnabled m \<longrightarrow> clientMsgSizeReceivedHistogram m \<noteq> None)
      \<and> (clientMsgSizeSentHistogramEnabled m \<longrightarrow> clientMsgSizeSentHistogram m \<noteq> None))"

text \<open>
  The fields of a registry are unexported: a registry is what the constructor returns,
  changed by the enabling methods, by pre-registration and by intercepted calls.  (The
  response of a unary handler and the wrapped stream play no part in the registry and are
  of unit type here.)
\<close>

inductive reachableServer :: "ServerMetrics \<Rightarrow> bool" where
  rs_new: "reachableServer NewServerMetrics"
| rs_enable: "reachableServer m \<Longrightarrow> reachableServer (EnableHandlingTimeHistogram opts m)"
| rs_init: "reachableServer m \<Longrightarrow> InitializeMetrics tf codes m server = Some m'
             \<Longrightarrow> reachableServer m'"
| rs_unary: "reachableServer m \<Longrightarrow>
     reachableServer (metrics (snd (UnaryServerInterceptor split (info :: UnaryServerInfo)
                                      (handler :: unit \<times> error option) \<lparr>metrics = m, calls = cs\<rparr>)))"
| rs_stream: "reachableServer m \<Longrightarrow>
     reachableServer (metrics (snd (StreamServerInterceptor split (ss :: unit) sinfo shandler
                                      \<lparr>metrics = m, calls = cs\<rparr>)))"

inductive reachableClient :: "ClientMetrics \<Rightarrow> bool" where
  rc_new: "reachableClient (NewClientMetrics apply defMsgBytesBuckets)"
| rc_enable_handling: "reachableClient m \<Longrightarrow> reachableClient (EnableClientHandlingTimeHistogram opts m)"
| rc_enable_recv: "reachableClient m \<Longrightarrow> reachableClient (EnableClientStreamReceiveTimeHistogram opts m)"
| rc_enable_send: "reachableClient m \<Longrightarrow> reachableClient (EnableClientStreamSendTimeHistogram opts m)"
| rc_enable_size_recv: "reachableClient m \<Longrightarrow> reachableClient (EnableMsgSizeReceivedBytesHistogram opts m)"
| rc_enable_size_sent: "reachableClient m \<Longrightarrow> reachableClient (EnableMsgSizeSentBytesHistogram opts m)"
| rc_unary: "reachableClient m \<Longrightarrow>
     reachableClient (metrics (snd (UnaryClientInterceptor split method invoker
                                      \<lparr>metrics = m, calls = cs\<rparr>)))"
| rc_stream: "reachableClient m \<Longrightarrow>
     reachableClient (metrics (snd (StreamClientInterceptor split desc method
                                      (streamer :: unit \<times> error option) \<lparr>metrics = m, calls = cs\<rparr>)))"
| rc_ops: "reachableClient m \<Longrightarrow>
     reachableClient (metrics (clientStreamOps (s :: unit monitoredStream) ops
                                 \<lparr>metrics = m, calls = cs\<rparr>))"

subsection \<open>The inclusion rule of the collector, in the words of the specification\<close>

text \<open>
  The families a registry exposes: each mandatory counter, then each histogram whose
  flag is set; a histogram whose flag is clear is left out.
\<close>

datatype family = CounterFamily CounterVec | HistogramFamily HistogramVec

fun familyDesc :: "family \<Rightarrow> Desc" where
  "familyDesc (CounterFamily v) = cDesc v"
| "familyDesc (HistogramFamily v) = hDesc v"

fun familyMetrics :: "family \<Rightarrow> Metric list" where
  "familyMetrics (CounterFamily v) =
     map (\<lambda>(lvs, n). \<lparr>mDesc = cDesc v, mLabelValues = lvs, mValue = n\<rparr>) (cSeries v)"
| "familyMetrics (HistogramFamily v) =
     map (\<lambda>(lvs, n). \<lparr>mDesc = hDesc v, mLabelValues = lvs, mValue = n\<rparr>) (hSeries v)"

definition enabledFamily :: "bool \<Rightarrow> HistogramVec option \<Rightarrow> family list" where
  "enabledFamily enabled p =
     (if enabled then (case p of None \<Rightarrow> [] | Some v \<Rightarrow> [HistogramFamily v]) else [])"

definition serverFamilies :: "ServerMetrics \<Rightarrow> family list" where
  "serverFamilies m =
     [CounterFamily (serverStartedCounter m), CounterFamily (serverHandledCounter m),
      CounterFamily (serverStreamMsgReceived m), CounterFamily (serverStreamMsgSent m)]
     @ enabledFamily (serverHandledHistogramEnabled m) (serverHandledHistogram m)"

definition clientFamilies :: "ClientMetrics \<Rightarrow> family list" where
  "clientFamilies m =
     [CounterFamily (clientStartedCounter m), CounterFamily (clientHandledCounter m),
      CounterFamily (clientStreamMsgReceived m), CounterFamily (clientStreamMsgSent m)]
     @ enabledFamily (clientHandledHistogramEnabled m) (clientHandledHistogram m)
     @ enabledFamily (clientStreamRecvHistogramEnabled m) (clientStreamRecvHistogram m)
     @ enabledFamily (clientStreamSendHistogramEnabled m) (clientStreamSendHistogram m)
     @ enabledFamily (clientMsgSizeReceivedHistogramEnabled m) (clientMsgSizeReceivedHistogram m)
     @ enabledFamily (clientMsgSizeSentHistogramEnabled m) (clientMsgSizeSentHistogram m)"

definition countTrue :: "bool list \<Rightarrow> nat" where
  "countTrue bs = length (filter (\<lambda>b. b) bs)"


subsection \<open>What pre-registration leaves behind\<close>

text \<open>
  A vector's series are kept: every tuple reads the same value as before (a tuple without
  a series reads zero), no series is lost, and tuples stay unique.
\<close>

definition seriesKept :: "series \<Rightarrow> series \<Rightarrow> bool" where
  "seriesKept xs ys =
     ((\<forall>k. seriesValue ys k = seriesValue xs k)
      \<and> (\<forall>k. hasSeries xs k \<longrightarrow> hasSeries ys k)
      \<and> (distinct (map fst xs) \<longrightarrow> distinct (map fst ys)))"

definition histogramKept :: "HistogramVec option \<Rightarrow> HistogramVec option \<Rightarrow> bool" where
  "histogramKept p q =
     (case (p, q) of
        (None, None) \<Rightarrow> True
      | (Some v, Some v') \<Rightarrow>
          hDesc v' = hDesc v \<and> hBuckets v' = hBuckets v \<and> seriesKept (hSeries v) (hSeries v')
      | _ \<Rightarrow> False)"

definition registryKept :: "ServerMetrics \<Rightarrow> ServerMetrics \<Rightarrow> bool" where
  "registryKept m m' =
     (seriesKept (cSeries (serverStartedCounter m)) (cSeries (serverStartedCounter m'))
      \<and> seriesKept (cSeries (serverHandledCounter m)) (cSeries (serverHandledCounter m'))
      \<and> seriesKept (cSeries (serverStreamMsgReceived m)) (cSeries (serverStreamMsgReceived m'))
      \<and> seriesKept (cSeries (serverStreamMsgSent m)) (cSeries (serverStreamMsgSent m'))
      \<and> cDesc (serverStartedCounter m') = cDesc (serverStartedCounter m)
      \<and> cDesc (serverHandledCounter m') = cDesc (serverHandledCounter m)
      \<and> cDesc (serverStreamMsgReceived m') = cDesc (serverStreamMsgReceived m)
      \<and> cDesc (serverStreamMsgSent m') = cDesc (serverStreamMsgSent m)
      \<and> serverHandledHistogramEnabled m' = serverHandledHistogramEnabled m
      \<and> serverHandledHistogramOpts m' = serverHandledHistogramOpts m
      \<and> histogramKept (serverHandledHistogram m) (serverHandledHistogram m')
      \<and> (\<not> serverHandledHistogramEnabled m \<longrightarrow> serverHandledHistogram m' = serverHandledHistogram m))"

text \<open>
  A method is pre-registered in a registry when its tuple has a series in the started
  counter, in both message counters and, if the handling-time histogram is enabled, in
  that histogram, and when the handled counter has a series for the tuple with every code
  of the code table.
\<close>

definition methodLabels :: "(MethodInfo \<Rightarrow> grpcType) \<Rightarrow> string \<Rightarrow> MethodInfo \<Rightarrow> label_value list" where
  "methodLabels tf service mInfo = [LType (tf mInfo), LStr service, LStr (MethodInfo_Name mInfo)]"

definition histHasSeries :: "HistogramVec option \<Rightarrow> label_value list \<Rightarrow> bool" where
  "histHasSeries p lvs = (case p of None \<Rightarrow> False | Some v \<Rightarrow> hasSeries (hSeries v) lvs)"

definition preRegistered ::
  "(MethodInfo \<Rightarrow> grpcType) \<Rightarrow> Code list \<Rightarrow> ServerMetrics \<Rightarrow> string \<Rightarrow> MethodInfo \<Rightarrow> bool" where
  "preRegistered tf codes m service mInfo =
     (hasSeries (cSeries (serverStartedCounter m)) (methodLabels tf service mInfo)
      \<and> hasSeries (cSeries (serverStreamMsgReceived m)) (methodLabels tf service mInfo)
      \<and> hasSeries (cSeries (serverStreamMsgSent m)) (methodLabels tf service mInfo)
      \<and> (serverHandledHistogramEnabled m \<longrightarrow>
            histHasSeries (serverHandledHistogram m) (methodLabels tf service mInfo))
      \<and> (\<forall>code \<in> set codes.
            hasSeries (cSeries (serverHandledCounter m))
              (methodLabels tf service mInfo @ [LCode code])))"

definition allPreRegistered ::
  "(MethodInfo \<Rightarrow> grpcType) \<Rightarrow> Code list \<Rightarrow> ServerMetrics \<Rightarrow> (string \<times> ServiceInfo) list \<Rightarrow> bool" where
  "allPreRegistered tf codes m server =
     (\<forall>(service, info) \<in> set server. \<forall>mInfo \<in> set (Methods info).
        preRegistered tf codes m service mInfo)"

text \<open>Referencing one series per code of the table, as the last loop of
  \<^verbatim>\<open>preRegisterMethod\<close> does on the handled counter.\<close>

definition getAll :: "(Code \<Rightarrow> label_value list) \<Rightarrow> Code list \<Rightarrow> series \<Rightarrow> series" where
  "getAll f codes xs = foldl (\<lambda>xs code. getOrCreate (f code) xs) xs codes"

section \<open>Facts about series\<close>

lemma map_of_getOrCreate:
  "map_of (getOrCreate k xs) k' = (if k' = k \<and> map_of xs k = None then Some 0 else map_of xs k')"
  by (cases "map_of xs k"; cases "map_of xs k'") (auto simp: getOrCreate_def map_add_def)

lemma map_of_bump:
  "map_of (map (\<lambda>(k', n). if k' = k then (k', n + 1) else (k', n)) xs) k' =
     (if k' = k then map_option (\<lambda>n. n + 1) (map_of xs k') else map_of xs k')"
  by (induction xs) auto

lemma seriesValue_getOrCreate: "seriesValue (getOrCreate k xs) k' = seriesValue xs k'"
  by (simp add: seriesValue_def map_of_getOrCreate)

lemma seriesValue_addOne:
  "seriesValue (addOne k xs) k' = seriesValue xs k' + (if k' = k then 1 else 0)"
  by (cases "map_of xs k") (simp_all add: seriesValue_def addOne_def map_of_bump map_of_getOrCreate)

lemma hasSeries_getOrCreate: "hasSeries (getOrCreate k xs) k' = (k' = k \<or> hasSeries xs k')"
  by (auto simp: hasSeries_def map_of_getOrCreate)

lemma getOrCreate_present: "hasSeries xs k \<Longrightarrow> getOrCreate k xs = xs"
  by (auto simp: hasSeries_def getOrCreate_def split: option.splits)

lemma distinct_getOrCreate: "distinct (map fst xs) \<Longrightarrow> distinct (map fst (getOrCreate k xs))"
  by (auto simp: getOrCreate_def map_of_eq_None_iff split: option.splits)

lemma prefix_getOrCreate: "\<exists>ys. getOrCreate k xs = xs @ ys"
  by (simp add: getOrCreate_def split: option.splits)

section \<open>Facts about the collector methods\<close>

lemma describe_step:
  "(en \<longrightarrow> p \<noteq> None) \<Longrightarrow>
     (if en then HistogramVec_Describe p ch else Some ch) =
       Some (ch @ map familyDesc (enabledFamily en p))"
  by (cases p) (simp_all add: HistogramVec_Describe_def enabledFamily_def)

lemma collect_step:
  "(en \<longrightarrow> p \<noteq> None) \<Longrightarrow>
     (if en then HistogramVec_Collect p ch else Some ch) =
       Some (ch @ concat (map familyMetrics (enabledFamily en p)))"
  by (cases p) (simp_all add: HistogramVec_Collect_def enabledFamily_def)

lemma server_Describe_families:
  "serverHistogramsPresent m \<Longrightarrow>
     ServerMetrics_Describe m ch = Some (ch @ map familyDesc (serverFamilies m))"
  by (simp add: serverHistogramsPresent_def ServerMetrics_Describe_def serverFamilies_def
      CounterVec_Describe_def describe_step Let_def)

lemma server_Collect_families:
  "serverHistogramsPresent m \<Longrightarrow>
     ServerMetrics_Collect m ch = Some (ch @ concat (map familyMetrics (serverFamilies m)))"
  by (simp add: serverHistogramsPresent_def ServerMetrics_Collect_def serverFamilies_def
      CounterVec_Collect_def collect_step Let_def)

lemma client_Describe_families:
  "clientHistogramsPresent m \<Longrightarrow>
     ClientMetrics_Describe m ch = Some (ch @ map familyDesc (clientFamilies m))"
  by (simp add: clientHistogramsPresent_def ClientMetrics_Describe_def clientFamilies_def
      CounterVec_Describe_def describe_step Let_def)

lemma client_Collect_families:
  "clientHistogramsPresent m \<Longrightarrow>
     ClientMetrics_Collect m ch = Some (ch @ concat (map familyMetrics (clientFamilies m)))"
  by (simp add: clientHistogramsPresent_def ClientMetrics_Collect_def clientFamilies_def
      CounterVec_Collect_def collect_step Let_def)

lemma length_enabledFamily:
  "(en \<longrightarrow> p \<noteq> None) \<Longrightarrow> length (enabledFamily en p) = (if en then 1 else 0)"
  by (cases p) (simp_all add: enabledFamily_def)

section \<open>Facts about the reporters: the calls they log, the registry they leave\<close>

lemma calls_logCall: "calls (logCall c w) = calls w @ [c]"
  by (simp add: logCall_def)

lemma metrics_logCall: "metrics (logCall c w) = metrics w"
  by (simp add: logCall_def)

lemma wrapped_simps: "fst (wrapped c res w) = res" "snd (wrapped c res w) = logCall c w"
  by (simp_all add: wrapped_def)

lemma vec_simps:
  "cSeries (CounterVec_Inc v k) = addOne k (cSeries v)"
  "cDesc (CounterVec_Inc v k) = cDesc v"
  "cSeries (CounterVec_GetMetricWithLabelValues v k) = getOrCreate k (cSeries v)"
  "cDesc (CounterVec_GetMetricWithLabelValues v k) = cDesc v"
  "hSeries (HistogramVec_Observe h k) = addOne k (hSeries h)"
  "hSeries (HistogramVec_GetMetricWithLabelValues h k) = getOrCreate k (hSeries h)"
  by (simp_all add: CounterVec_Inc_def CounterVec_GetMetricWithLabelValues_def
      HistogramVec_Observe_def HistogramVec_GetMetricWithLabelValues_def)

lemma observeOn_None: "(observeOn p k = None) = (p = None)"
  by (cases p) (simp_all add: observeOn_def)

lemma histValue_observeOn:
  "histValue (observeOn p k) k' = histValue p k' + (if p \<noteq> None \<and> k' = k then 1 else 0)"
  by (cases p) (simp_all add: observeOn_def histValue_def vec_simps seriesValue_addOne)

lemma calls_newServerReporter:
  "calls (snd (newServerReporter split t fm w)) = calls w @ [CallNewReporter t fm]"
  by (simp add: newServerReporter_def Let_def split_def calls_logCall)

lemma fst_newServerReporter:
  "fst (newServerReporter split t fm w) =
     \<lparr>rpcType = t, serviceName = fst (split fm), methodName = snd (split fm)\<rparr>"
  by (simp add: newServerReporter_def Let_def split_def)

lemma metrics_newServerReporter:
  "metrics (snd (newServerReporter split t fm w)) =
     (metrics w)\<lparr>serverStartedCounter :=
        CounterVec_Inc (serverStartedCounter (metrics w))
          [LType t, LStr (fst (split fm)), LStr (snd (split fm))]\<rparr>"
  by (simp add: newServerReporter_def Let_def split_def metrics_logCall labels3_def)

lemma calls_serverReporter:
  "calls (serverReporter_ReceivedMessage r w) = calls w @ [CallReceivedMessage]"
  "calls (serverReporter_SentMessage r w) = calls w @ [CallSentMessage]"
  "calls (serverReporter_Handled r code w) = calls w @ [CallHandled code]"
  by (simp_all add: serverReporter_ReceivedMessage_def serverReporter_SentMessage_def
      serverReporter_Handled_def Let_def calls_logCall)

lemma metrics_serverReporter:
  "metrics (serverReporter_ReceivedMessage r w) =
     (metrics w)\<lparr>serverStreamMsgReceived :=
        CounterVec_Inc (serverStreamMsgReceived (metrics w)) (labels3 r)\<rparr>"
  "metrics (serverReporter_SentMessage r w) =
     (metrics w)\<lparr>serverStreamMsgSent :=
        CounterVec_Inc (serverStreamMsgSent (metrics w)) (labels3 r)\<rparr>"
  "metrics (serverReporter_Handled r code w) =
     (if serverHandledHistogramEnabled (metrics w)
      then (metrics w)\<lparr>serverHandledCounter :=
                          CounterVec_Inc (serverHandledCounter (metrics w)) (labels4 r code),
                       serverHandledHistogram :=
                          observeOn (serverHandledHistogram (metrics w)) (labels3 r)\<rparr>
      else (metrics w)\<lparr>serverHandledCounter :=
                          CounterVec_Inc (serverHandledCounter (metrics w)) (labels4 r code)\<rparr>)"
  by (simp_all add: serverReporter_ReceivedMessage_def serverReporter_SentMessage_def
      serverReporter_Handled_def Let_def metrics_logCall)


lemma calls_newClientReporter:
  "calls (snd (newClientReporter split t fm w)) = calls w @ [CallNewReporter t fm]"
  by (simp add: newClientReporter_def Let_def split_def calls_logCall)

lemma fst_newClientReporter:
  "fst (newClientReporter split t fm w) =
     \<lparr>rpcType = t, serviceName = fst (split fm), methodName = snd (split fm)\<rparr>"
  by (simp add: newClientReporter_def Let_def split_def)

lemma metrics_newClientReporter:
  "metrics (snd (newClientReporter split t fm w)) =
     (metrics w)\<lparr>clientStartedCounter :=
        CounterVec_Inc (clientStartedCounter (metrics w))
          [LType t, LStr (fst (split fm)), LStr (snd (split fm))]\<rparr>"
  by (simp add: newClientReporter_def Let_def split_def metrics_logCall labels3_def)

lemma calls_clientReporter:
  "calls (clientReporter_ReceivedMessage r w) = calls w @ [CallReceivedMessage]"
  "calls (clientReporter_SentMessage r w) = calls w @ [CallSentMessage]"
  "calls (clientReporter_Handled r code w) = calls w @ [CallHandled code]"
  "calls (snd (clientReporter_SendMessageTimer r w)) = calls w @ [CallSendMessageTimer]"
  "calls (snd (clientReporter_ReceiveMessageTimer r w)) = calls w @ [CallReceiveMessageTimer]"
  "calls (timer_ObserveDuration t w) = calls w @ [CallObserveDuration]"
  by (cases t; simp_all add: clientReporter_ReceivedMessage_def clientReporter_SentMessage_def
      clientReporter_Handled_def clientReporter_SendMessageTimer_def
      clientReporter_ReceiveMessageTimer_def Let_def calls_logCall)+

lemma metrics_clientReporter:
  "metrics (clientReporter_ReceivedMessage r w) =
     (metrics w)\<lparr>clientStreamMsgReceived :=
        CounterVec_Inc (clientStreamMsgReceived (metrics w)) (labels3 r)\<rparr>"
  "metrics (clientReporter_SentMessage r w) =
     (metrics w)\<lparr>clientStreamMsgSent :=
        CounterVec_Inc (clientStreamMsgSent (metrics w)) (labels3 r)\<rparr>"
  "metrics (clientReporter_Handled r code w) =
     (if clientHandledHistogramEnabled (metrics w)
      then (metrics w)\<lparr>clientHandledCounter :=
                          CounterVec_Inc (clientHandledCounter (metrics w)) (labels4 r code),
                       clientHandledHistogram :=
                          observeOn (clientHandledHistogram (metrics w)) (labels3 r)\<rparr>
      else (metrics w)\<lparr>clientHandledCounter :=
                          CounterVec_Inc (clientHandledCounter (metrics w)) (labels4 r code)\<rparr>)"
  "metrics (snd (clientReporter_SendMessageTimer r w)) = metrics w"
  "metrics (snd (clientReporter_ReceiveMessageTimer r w)) = metrics w"
  by (simp_all add: clientReporter_ReceivedMessage_def clientReporter_SentMessage_def
      clientReporter_Handled_def clientReporter_SendMessageTimer_def
      clientReporter_ReceiveMessageTimer_def Let_def metrics_logCall)

lemma fst_clientTimers:
  "fst (clientReporter_SendMessageTimer r w) =
     (if clientStreamSendHistogramEnabled (metrics w) then sendTimer (labels3 r) else emptyTimer)"
  "fst (clientReporter_ReceiveMessageTimer r w) =
     (if clientStreamRecvHistogramEnabled (metrics w) then recvTimer (labels3 r) else emptyTimer)"
  by (simp_all add: clientReporter_SendMessageTimer_def clientReporter_ReceiveMessageTimer_def)

lemma metrics_ObserveDuration:
  "metrics (timer_ObserveDuration emptyTimer w) = metrics w"
  "metrics (timer_ObserveDuration (sendTimer k) w) =
     (metrics w)\<lparr>clientStreamSendHistogram := observeOn (clientStreamSendHistogram (metrics w)) k\<rparr>"
  "metrics (timer_ObserveDuration (recvTimer k) w) =
     (metrics w)\<lparr>clientStreamRecvHistogram := observeOn (clientStreamRecvHistogram (metrics w)) k\<rparr>"
  by (simp_all add: Let_def metrics_logCall)

section \<open>Facts about the interceptors and the decorated streams\<close>

lemma calls_UnaryServerInterceptor:
  "calls (snd (UnaryServerInterceptor split info (resp, err) w)) =
     calls w @ [CallNewReporter Unary (FullMethod info), CallReceivedMessage, CallHandler,
                CallHandled (grpc_Code err)]
       @ (if err = None then [CallSentMessage] else [])"
  by (simp add: UnaryServerInterceptor_def Let_def split_def wrapped_simps calls_logCall
      calls_serverReporter calls_newServerReporter)

lemma fst_UnaryServerInterceptor:
  "fst (UnaryServerInterceptor split info handler w) = handler"
  by (simp add: UnaryServerInterceptor_def Let_def split_def wrapped_simps)

lemma calls_server_SendMsg:
  "calls (snd (monitoredServerStream_SendMsg s res w)) = calls w @ serverOpCalls (SendMsg res)"
  by (simp add: monitoredServerStream_SendMsg_def Let_def split_def wrapped_simps calls_logCall
      calls_serverReporter)

lemma calls_server_RecvMsg:
  "calls (snd (monitoredServerStream_RecvMsg s res w)) = calls w @ serverOpCalls (RecvMsg res)"
  by (simp add: monitoredServerStream_RecvMsg_def Let_def split_def wrapped_simps calls_logCall
      calls_serverReporter)

lemma calls_serverStreamOps:
  "calls (serverStreamOps s ops w) = calls w @ concat (map serverOpCalls ops)"
proof (induction ops arbitrary: w)
  case Nil
  show ?case by simp
next
  case (Cons x ops)
  show ?case
    by (cases x) (simp_all add: Cons.IH calls_server_SendMsg calls_server_RecvMsg)
qed

lemma calls_client_SendMsg:
  "calls (snd (monitoredClientStream_SendMsg s res w)) = calls w @ clientOpCalls (SendMsg res)"
  by (simp add: monitoredClientStream_SendMsg_def Let_def split_def wrapped_simps calls_logCall
      calls_clientReporter)

lemma calls_client_RecvMsg:
  "calls (snd (monitoredClientStream_RecvMsg s res w)) = calls w @ clientOpCalls (RecvMsg res)"
  by (simp add: monitoredClientStream_RecvMsg_def Let_def split_def wrapped_simps calls_logCall
      calls_clientReporter)

lemma fst_stream_methods:
  "fst (monitoredServerStream_SendMsg s res w0) = res"
  "fst (monitoredServerStream_RecvMsg s res w0) = res"
  "fst (monitoredClientStream_SendMsg s res w) = res"
  "fst (monitoredClientStream_RecvMsg s res w) = res"
  by (simp_all add: monitoredServerStream_SendMsg_def monitoredServerStream_RecvMsg_def
      monitoredClientStream_SendMsg_def monitoredClientStream_RecvMsg_def
      Let_def split_def wrapped_simps)

lemma calls_clientStreamOps:
  "calls (clientStreamOps s ops w) = calls w @ concat (map clientOpCalls ops)"
proof (induction ops arbitrary: w)
  case Nil
  show ?case by simp
next
  case (Cons x ops)
  show ?case
    by (cases x) (simp_all add: Cons.IH calls_client_SendMsg calls_client_RecvMsg)
qed

lemma calls_StreamServerInterceptor:
  "calls (snd (StreamServerInterceptor split ss info (ops, err) w)) =
     calls w @ [CallNewReporter (streamRpcType info) (FullMethod info), CallHandler]
       @ concat (map serverOpCalls ops) @ [CallHandled (grpc_Code err)]"
  by (simp add: StreamServerInterceptor_def streamHandler_def Let_def split_def calls_logCall
      calls_serverReporter calls_newServerReporter calls_serverStreamOps)

lemma fst_StreamServerInterceptor:
  "fst (StreamServerInterceptor split ss info (ops, err) w) = err"
  by (simp add: StreamServerInterceptor_def streamHandler_def Let_def split_def)

lemma calls_UnaryClientInterceptor:
  "calls (snd (UnaryClientInterceptor split method err w)) =
     calls w @ [CallNewReporter Unary method, CallSentMessage, CallInvoker]
       @ (if err = None then [CallReceivedMessage] else [])
       @ [CallHandled (Status_Code (fst (status_FromError err)))]"
  by (simp add: UnaryClientInterceptor_def Let_def split_def wrapped_simps calls_logCall
      calls_clientReporter calls_newClientReporter)

lemma fst_UnaryClientInterceptor:
  "fst (UnaryClientInterceptor split method err w) = err"
  by (simp add: UnaryClientInterceptor_def Let_def split_def wrapped_simps)

lemma calls_StreamClientInterceptor:
  "calls (snd (StreamClientInterceptor split desc method (cs, err) w)) =
     calls w @ [CallNewReporter (clientStreamType desc) method, CallStreamer]
       @ (if err \<noteq> None then [CallHandled (Status_Code (fst (status_FromError err)))] else [])"
  by (simp add: StreamClientInterceptor_def Let_def split_def wrapped_simps calls_logCall
      calls_clientReporter calls_newClientReporter)

lemma fst_StreamClientInterceptor:
  "fst (StreamClientInterceptor split desc method (cs, err) w) =
     (if err \<noteq> None then (None, err)
      else (Some \<lparr>Stream = cs, monitor = \<lparr>rpcType = clientStreamType desc,
               serviceName = fst (split method), methodName = snd (split method)\<rparr>\<rparr>, None))"
  by (simp add: StreamClientInterceptor_def Let_def split_def wrapped_simps fst_newClientReporter)

lemma Status_Code_FromError:
  "Status_Code (fst (status_FromError err)) =
     (case err of None \<Rightarrow> codes_OK
      | Some (StatusError (Status c msg)) \<Rightarrow> c
      | Some e \<Rightarrow> codes_Unknown)"
  by (cases err rule: status_FromError.cases) (auto split: Status.splits)

lemma handledCount_simps:
  "handledCount [] = 0"
  "handledCount (xs @ ys) = handledCount xs + handledCount ys"
  "handledCount (c # cs) = (if isHandled c then 1 else 0) + handledCount cs"
  by (simp_all add: handledCount_def)

lemma handledCount_serverOp: "handledCount (serverOpCalls x) = 0"
  by (cases x) (simp_all add: handledCount_simps)

lemma handledCount_serverOps: "handledCount (concat (map serverOpCalls ops)) = 0"
  by (induction ops) (simp_all add: handledCount_simps handledCount_serverOp)

lemma handledCount_clientOp: "handledCount (clientOpCalls x) = (if recvFailed x then 1 else 0)"
  by (cases x rule: recvFailed.cases) (simp_all add: handledCount_simps)

lemma handledCount_clientOps:
  "handledCount (concat (map clientOpCalls ops)) = countOps recvFailed ops"
  by (induction ops) (simp_all add: handledCount_simps handledCount_clientOp countOps_def)


section \<open>Facts about the counters after a call\<close>

lemmas reporter_metrics =
  metrics_logCall wrapped_simps metrics_newServerReporter metrics_serverReporter
  metrics_newClientReporter metrics_clientReporter fst_newServerReporter fst_newClientReporter
  vec_simps seriesValue_addOne labels3_def labels4_def

lemma started_UnaryServerInterceptor:
  "seriesValue (cSeries (serverStartedCounter (metrics (snd (UnaryServerInterceptor split info handler w))))) k =
     seriesValue (cSeries (serverStartedCounter (metrics w))) k
       + (if k = [LType Unary, LStr (fst (split (FullMethod info))), LStr (snd (split (FullMethod info)))]
          then 1 else 0)"
  by (simp add: UnaryServerInterceptor_def Let_def split_def reporter_metrics)

lemma handled_UnaryServerInterceptor:
  "seriesValue (cSeries (serverHandledCounter (metrics (snd (UnaryServerInterceptor split info handler w))))) k =
     seriesValue (cSeries (serverHandledCounter (metrics w))) k
       + (if k = [LType Unary, LStr (fst (split (FullMethod info))), LStr (snd (split (FullMethod info))),
                  LCode (grpc_Code (snd handler))]
          then 1 else 0)"
  by (simp add: UnaryServerInterceptor_def Let_def split_def reporter_metrics)

lemma sent_UnaryServerInterceptor:
  "seriesValue (cSeries (serverStreamMsgSent (metrics (snd (UnaryServerInterceptor split info handler w))))) k =
     seriesValue (cSeries (serverStreamMsgSent (metrics w))) k
       + (if snd handler = None \<and>
             k = [LType Unary, LStr (fst (split (FullMethod info))), LStr (snd (split (FullMethod info)))]
          then 1 else 0)"
  by (simp add: UnaryServerInterceptor_def Let_def split_def reporter_metrics)

lemma received_UnaryServerInterceptor:
  "seriesValue (cSeries (serverStreamMsgReceived (metrics (snd (UnaryServerInterceptor split info handler w))))) k =
     seriesValue (cSeries (serverStreamMsgReceived (metrics w))) k
       + (if k = [LType Unary, LStr (fst (split (FullMethod info))), LStr (snd (split (FullMethod info)))]
          then 1 else 0)"
  by (simp add: UnaryServerInterceptor_def Let_def split_def reporter_metrics)

lemma started_UnaryClientInterceptor:
  "seriesValue (cSeries (clientStartedCounter (metrics (snd (UnaryClientInterceptor split method err w))))) k =
     seriesValue (cSeries (clientStartedCounter (metrics w))) k
       + (if k = [LType Unary, LStr (fst (split method)), LStr (snd (split method))] then 1 else 0)"
  by (simp add: UnaryClientInterceptor_def Let_def split_def reporter_metrics)

lemma handled_UnaryClientInterceptor:
  "seriesValue (cSeries (clientHandledCounter (metrics (snd (UnaryClientInterceptor split method err w))))) k =
     seriesValue (cSeries (clientHandledCounter (metrics w))) k
       + (if k = [LType Unary, LStr (fst (split method)), LStr (snd (split method)),
                  LCode (Status_Code (fst (status_FromError err)))]
          then 1 else 0)"
  by (simp add: UnaryClientInterceptor_def Let_def split_def reporter_metrics)

lemma sent_UnaryClientInterceptor:
  "seriesValue (cSeries (clientStreamMsgSent (metrics (snd (UnaryClientInterceptor split method err w))))) k =
     seriesValue (cSeries (clientStreamMsgSent (metrics w))) k
       + (if k = [LType Unary, LStr (fst (split method)), LStr (snd (split method))] then 1 else 0)"
  by (simp add: UnaryClientInterceptor_def Let_def split_def reporter_metrics)

lemma received_UnaryClientInterceptor:
  "seriesValue (cSeries (clientStreamMsgReceived (metrics (snd (UnaryClientInterceptor split method err w))))) k =
     seriesValue (cSeries (clientStreamMsgReceived (metrics w))) k
       + (if err = None \<and> k = [LType Unary, LStr (fst (split method)), LStr (snd (split method))]
          then 1 else 0)"
  by (simp add: UnaryClientInterceptor_def Let_def split_def reporter_metrics)

lemma started_StreamClientInterceptor:
  "seriesValue (cSeries (clientStartedCounter (metrics (snd (StreamClientInterceptor split desc method streamer w))))) k =
     seriesValue (cSeries (clientStartedCounter (metrics w))) k
       + (if k = [LType (clientStreamType desc), LStr (fst (split method)), LStr (snd (split method))]
          then 1 else 0)"
  by (simp add: StreamClientInterceptor_def Let_def split_def reporter_metrics)


section \<open>Facts about the counters after sends and receives on a decorated stream\<close>

lemmas stream_metrics =
  monitoredServerStream_SendMsg_def monitoredServerStream_RecvMsg_def
  monitoredClientStream_SendMsg_def monitoredClientStream_RecvMsg_def
  Let_def split_def fst_clientTimers metrics_ObserveDuration reporter_metrics

lemma server_step_frame:
  "serverStartedCounter (metrics (snd (monitoredServerStream_SendMsg s res w))) = serverStartedCounter (metrics w)"
  "serverHandledCounter (metrics (snd (monitoredServerStream_SendMsg s res w))) = serverHandledCounter (metrics w)"
  "serverHandledHistogramEnabled (metrics (snd (monitoredServerStream_SendMsg s res w))) = serverHandledHistogramEnabled (metrics w)"
  "serverHandledHistogram (metrics (snd (monitoredServerStream_SendMsg s res w))) = serverHandledHistogram (metrics w)"
  "serverStartedCounter (metrics (snd (monitoredServerStream_RecvMsg s res w))) = serverStartedCounter (metrics w)"
  "serverHandledCounter (metrics (snd (monitoredServerStream_RecvMsg s res w))) = serverHandledCounter (metrics w)"
  "serverHandledHistogramEnabled (metrics (snd (monitoredServerStream_RecvMsg s res w))) = serverHandledHistogramEnabled (metrics w)"
  "serverHandledHistogram (metrics (snd (monitoredServerStream_RecvMsg s res w))) = serverHandledHistogram (metrics w)"
  by (simp_all add: stream_metrics)

lemma server_ops_frame:
  "serverStartedCounter (metrics (serverStreamOps s ops w)) = serverStartedCounter (metrics w)
   \<and> serverHandledCounter (metrics (serverStreamOps s ops w)) = serverHandledCounter (metrics w)
   \<and> serverHandledHistogramEnabled (metrics (serverStreamOps s ops w)) = serverHandledHistogramEnabled (metrics w)
   \<and> serverHandledHistogram (metrics (serverStreamOps s ops w)) = serverHandledHistogram (metrics w)"
proof (induction ops arbitrary: w)
  case Nil
  show ?case by simp
next
  case (Cons x ops)
  show ?case by (cases x) (simp_all add: Cons.IH server_step_frame)
qed

lemma server_step_sent:
  "seriesValue (cSeries (serverStreamMsgSent (metrics (snd (monitoredServerStream_SendMsg s res w))))) k =
     seriesValue (cSeries (serverStreamMsgSent (metrics w))) k
       + (if res = None \<and> k = labels3 (monitor s) then 1 else 0)"
  "seriesValue (cSeries (serverStreamMsgSent (metrics (snd (monitoredServerStream_RecvMsg s res w))))) k =
     seriesValue (cSeries (serverStreamMsgSent (metrics w))) k"
  by (simp_all add: stream_metrics)

lemma server_step_received:
  "seriesValue (cSeries (serverStreamMsgReceived (metrics (snd (monitoredServerStream_RecvMsg s res w))))) k =
     seriesValue (cSeries (serverStreamMsgReceived (metrics w))) k
       + (if res = None \<and> k = labels3 (monitor s) then 1 else 0)"
  "seriesValue (cSeries (serverStreamMsgReceived (metrics (snd (monitoredServerStream_SendMsg s res w))))) k =
     seriesValue (cSeries (serverStreamMsgReceived (metrics w))) k"
  by (simp_all add: stream_metrics)

lemma countOps_Cons: "countOps P (x # xs) = (if P x then 1 else 0) + countOps P xs"
  by (simp add: countOps_def)

lemma countOps_Nil: "countOps P [] = 0"
  by (simp add: countOps_def)

lemma server_ops_sent:
  "seriesValue (cSeries (serverStreamMsgSent (metrics (serverStreamOps s ops w)))) k =
     seriesValue (cSeries (serverStreamMsgSent (metrics w))) k
       + (if k = labels3 (monitor s) then countOps sendOk ops else 0)"
proof (induction ops arbitrary: w)
  case Nil
  show ?case by (simp add: countOps_Nil)
next
  case (Cons x ops)
  show ?case
  proof (cases x)
    case (SendMsg res)
    then show ?thesis by (cases res) (simp_all add: Cons.IH server_step_sent countOps_Cons)
  next
    case (RecvMsg res)
    then show ?thesis by (simp add: Cons.IH server_step_sent countOps_Cons)
  qed
qed

lemma server_ops_received:
  "seriesValue (cSeries (serverStreamMsgReceived (metrics (serverStreamOps s ops w)))) k =
     seriesValue (cSeries (serverStreamMsgReceived (metrics w))) k
       + (if k = labels3 (monitor s) then countOps recvOk ops else 0)"
proof (induction ops arbitrary: w)
  case Nil
  show ?case by (simp add: countOps_Nil)
next
  case (Cons x ops)
  show ?case
  proof (cases x)
    case (SendMsg res)
    then show ?thesis by (simp add: Cons.IH server_step_received countOps_Cons)
  next
    case (RecvMsg res)
    then show ?thesis by (cases res) (simp_all add: Cons.IH server_step_received countOps_Cons)
  qed
qed

lemma client_step_sent:
  "seriesValue (cSeries (clientStreamMsgSent (metrics (snd (monitoredClientStream_SendMsg s res w))))) k =
     seriesValue (cSeries (clientStreamMsgSent (metrics w))) k
       + (if res = None \<and> k = labels3 (monitor s) then 1 else 0)"
  "seriesValue (cSeries (clientStreamMsgSent (metrics (snd (monitoredClientStream_RecvMsg s res w))))) k =
     seriesValue (cSeries (clientStreamMsgSent (metrics w))) k"
  by (simp_all add: stream_metrics)

lemma client_step_received:
  "seriesValue (cSeries (clientStreamMsgReceived (metrics (snd (monitoredClientStream_RecvMsg s res w))))) k =
     seriesValue (cSeries (clientStreamMsgReceived (metrics w))) k
       + (if res = None \<and> k = labels3 (monitor s) then 1 else 0)"
  "seriesValue (cSeries (clientStreamMsgReceived (metrics (snd (monitoredClientStream_SendMsg s res w))))) k =
     seriesValue (cSeries (clientStreamMsgReceived (metrics w))) k"
  by (simp_all add: stream_metrics)

lemma client_ops_sent:
  "seriesValue (cSeries (clientStreamMsgSent (metrics (clientStreamOps s ops w)))) k =
     seriesValue (cSeries (clientStreamMsgSent (metrics w))) k
       + (if k = labels3 (monitor s) then countOps sendOk ops else 0)"
proof (induction ops arbitrary: w)
  case Nil
  show ?case by (simp add: countOps_Nil)
next
  case (Cons x ops)
  show ?case
  proof (cases x)
    case (SendMsg res)
    then show ?thesis by (cases res) (simp_all add: Cons.IH client_step_sent countOps_Cons)
  next
    case (RecvMsg res)
    then show ?thesis by (simp add: Cons.IH client_step_sent countOps_Cons)
  qed
qed

lemma client_ops_received:
  "seriesValue (cSeries (clientStreamMsgReceived (metrics (clientStreamOps s ops w)))) k =
     seriesValue (cSeries (clientStreamMsgReceived (metrics w))) k
       + (if k = labels3 (monitor s) then countOps recvOk ops else 0)"
proof (induction ops arbitrary: w)
  case Nil
  show ?case by (simp add: countOps_Nil)
next
  case (Cons x ops)
  show ?case
  proof (cases x)
    case (SendMsg res)
    then show ?thesis by (simp add: Cons.IH client_step_received countOps_Cons)
  next
    case (RecvMsg res)
    then show ?thesis by (cases res) (simp_all add: Cons.IH client_step_received countOps_Cons)
  qed
qed


lemma client_step_flags:
  "clientStreamSendHistogramEnabled (metrics (snd (monitoredClientStream_SendMsg s res w))) = clientStreamSendHistogramEnabled (metrics w)"
  "clientStreamRecvHistogramEnabled (metrics (snd (monitoredClientStream_SendMsg s res w))) = clientStreamRecvHistogramEnabled (metrics w)"
  "clientStreamSendHistogramEnabled (metrics (snd (monitoredClientStream_RecvMsg s res w))) = clientStreamSendHistogramEnabled (metrics w)"
  "clientStreamRecvHistogramEnabled (metrics (snd (monitoredClientStream_RecvMsg s res w))) = clientStreamRecvHistogramEnabled (metrics w)"
  "clientStartedCounter (metrics (snd (monitoredClientStream_SendMsg s res w))) = clientStartedCounter (metrics w)"
  "clientStartedCounter (metrics (snd (monitoredClientStream_RecvMsg s res w))) = clientStartedCounter (metrics w)"
  by (simp_all add: stream_metrics)

lemma client_step_presence:
  "(clientStreamSendHistogram (metrics (snd (monitoredClientStream_SendMsg s res w))) = None) = (clientStreamSendHistogram (metrics w) = None)"
  "(clientStreamRecvHistogram (metrics (snd (monitoredClientStream_SendMsg s res w))) = None) = (clientStreamRecvHistogram (metrics w) = None)"
  "(clientStreamSendHistogram (metrics (snd (monitoredClientStream_RecvMsg s res w))) = None) = (clientStreamSendHistogram (metrics w) = None)"
  "(clientStreamRecvHistogram (metrics (snd (monitoredClientStream_RecvMsg s res w))) = None) = (clientStreamRecvHistogram (metrics w) = None)"
  by (simp_all add: stream_metrics observeOn_None)

lemma client_step_sendHist:
  "histValue (clientStreamSendHistogram (metrics (snd (monitoredClientStream_SendMsg s res w)))) k =
     histValue (clientStreamSendHistogram (metrics w)) k
       + (if clientStreamSendHistogramEnabled (metrics w) \<and> clientStreamSendHistogram (metrics w) \<noteq> None
             \<and> k = labels3 (monitor s) then 1 else 0)"
  "histValue (clientStreamSendHistogram (metrics (snd (monitoredClientStream_RecvMsg s res w)))) k =
     histValue (clientStreamSendHistogram (metrics w)) k"
  by (simp_all add: stream_metrics histValue_observeOn)

lemma client_step_recvHist:
  "histValue (clientStreamRecvHistogram (metrics (snd (monitoredClientStream_RecvMsg s res w)))) k =
     histValue (clientStreamRecvHistogram (metrics w)) k
       + (if clientStreamRecvHistogramEnabled (metrics w) \<and> clientStreamRecvHistogram (metrics w) \<noteq> None
             \<and> k = labels3 (monitor s) then 1 else 0)"
  "histValue (clientStreamRecvHistogram (metrics (snd (monitoredClientStream_SendMsg s res w)))) k =
     histValue (clientStreamRecvHistogram (metrics w)) k"
  by (simp_all add: stream_metrics histValue_observeOn)

lemma client_ops_frame:
  "clientStreamSendHistogramEnabled (metrics (clientStreamOps s ops w)) = clientStreamSendHistogramEnabled (metrics w)
   \<and> clientStreamRecvHistogramEnabled (metrics (clientStreamOps s ops w)) = clientStreamRecvHistogramEnabled (metrics w)
   \<and> clientStartedCounter (metrics (clientStreamOps s ops w)) = clientStartedCounter (metrics w)
   \<and> (clientStreamSendHistogram (metrics (clientStreamOps s ops w)) = None) = (clientStreamSendHistogram (metrics w) = None)
   \<and> (clientStreamRecvHistogram (metrics (clientStreamOps s ops w)) = None) = (clientStreamRecvHistogram (metrics w) = None)"
proof (induction ops arbitrary: w)
  case Nil
  show ?case by simp
next
  case (Cons x ops)
  show ?case by (cases x) (simp_all add: Cons.IH client_step_flags client_step_presence)
qed

lemma client_ops_sendHist:
  "histValue (clientStreamSendHistogram (metrics (clientStreamOps s ops w))) k =
     histValue (clientStreamSendHistogram (metrics w)) k
       + (if clientStreamSendHistogramEnabled (metrics w) \<and> clientStreamSendHistogram (metrics w) \<noteq> None
             \<and> k = labels3 (monitor s) then countOps isSend ops else 0)"
proof (induction ops arbitrary: w)
  case Nil
  show ?case by (simp add: countOps_Nil)
next
  case (Cons x ops)
  show ?case
    by (cases x)
       (auto simp add: Cons.IH client_step_sendHist client_step_flags client_step_presence countOps_Cons)
qed

lemma client_ops_recvHist:
  "histValue (clientStreamRecvHistogram (metrics (clientStreamOps s ops w))) k =
     histValue (clientStreamRecvHistogram (metrics w)) k
       + (if clientStreamRecvHistogramEnabled (metrics w) \<and> clientStreamRecvHistogram (metrics w) \<noteq> None
             \<and> k = labels3 (monitor s) then countOps isRecv ops else 0)"
proof (induction ops arbitrary: w)
  case Nil
  show ?case by (simp add: countOps_Nil)
next
  case (Cons x ops)
  show ?case
    by (cases x)
       (auto simp add: Cons.IH client_step_recvHist client_step_flags client_step_presence countOps_Cons)
qed

lemma observeCount_simps:
  "observeCount [] = 0"
  "observeCount (xs @ ys) = observeCount xs + observeCount ys"
  "observeCount (c # cs) = (if c = CallObserveDuration then 1 else 0) + observeCount cs"
  by (simp_all add: observeCount_def)

lemma observeCount_clientOp: "observeCount (clientOpCalls x) = 1"
  by (cases x) (simp_all add: observeCount_simps)

lemma observeCount_clientOps: "observeCount (concat (map clientOpCalls ops)) = length ops"
  by (induction ops) (simp_all add: observeCount_simps observeCount_clientOp)

section \<open>Facts about the registry invariant\<close>

lemma present_NewServerMetrics: "serverHistogramsPresent NewServerMetrics"
  by (simp add: serverHistogramsPresent_def NewServerMetrics_def)

lemma present_EnableHandlingTimeHistogram:
  "serverHistogramsPresent m \<Longrightarrow> serverHistogramsPresent (EnableHandlingTimeHistogram opts m)"
  by (simp add: serverHistogramsPresent_def EnableHandlingTimeHistogram_def Let_def)

lemma present_UnaryServerInterceptor:
  "serverHistogramsPresent (metrics (snd (UnaryServerInterceptor split info handler w))) =
     serverHistogramsPresent (metrics w)"
  by (simp add: serverHistogramsPresent_def UnaryServerInterceptor_def Let_def split_def
      reporter_metrics observeOn_None del: not_None_eq)

lemma present_StreamServerInterceptor:
  "serverHistogramsPresent (metrics (snd (StreamServerInterceptor split ss info handler w))) =
     serverHistogramsPresent (metrics w)"
  by (simp add: serverHistogramsPresent_def StreamServerInterceptor_def streamHandler_def Let_def
      split_def reporter_metrics observeOn_None server_ops_frame del: not_None_eq)

lemma present_NewClientMetrics: "clientHistogramsPresent (NewClientMetrics apply b)"
  by (simp add: clientHistogramsPresent_def NewClientMetrics_def)

lemma present_client_Enable:
  "clientHistogramsPresent m \<Longrightarrow> clientHistogramsPresent (EnableClientHandlingTimeHistogram opts m)"
  "clientHistogramsPresent m \<Longrightarrow> clientHistogramsPresent (EnableClientStreamReceiveTimeHistogram opts m)"
  "clientHistogramsPresent m \<Longrightarrow> clientHistogramsPresent (EnableClientStreamSendTimeHistogram opts m)"
  "clientHistogramsPresent m \<Longrightarrow> clientHistogramsPresent (EnableMsgSizeReceivedBytesHistogram opts m)"
  "clientHistogramsPresent m \<Longrightarrow> clientHistogramsPresent (EnableMsgSizeSentBytesHistogram opts m)"
  by (simp_all add: clientHistogramsPresent_def EnableClientHandlingTimeHistogram_def
      EnableClientStreamReceiveTimeHistogram_def EnableClientStreamSendTimeHistogram_def
      EnableMsgSizeReceivedBytesHistogram_def EnableMsgSizeSentBytesHistogram_def Let_def)

lemma present_UnaryClientInterceptor:
  "clientHistogramsPresent (metrics (snd (UnaryClientInterceptor split method err w))) =
     clientHistogramsPresent (metrics w)"
  by (simp add: clientHistogramsPresent_def UnaryClientInterceptor_def Let_def split_def
      reporter_metrics observeOn_None del: not_None_eq)

lemma present_StreamClientInterceptor:
  "clientHistogramsPresent (metrics (snd (StreamClientInterceptor split desc method streamer w))) =
     clientHistogramsPresent (metrics w)"
  by (simp add: clientHistogramsPresent_def StreamClientInterceptor_def Let_def split_def
      reporter_metrics observeOn_None del: not_None_eq)

lemma present_client_step:
  "clientHistogramsPresent (metrics (snd (monitoredClientStream_SendMsg s res w))) =
     clientHistogramsPresent (metrics w)"
  "clientHistogramsPresent (metrics (snd (monitoredClientStream_RecvMsg s res w))) =
     clientHistogramsPresent (metrics w)"
  by (simp_all add: clientHistogramsPresent_def stream_metrics observeOn_None del: not_None_eq)

lemma present_clientStreamOps:
  "clientHistogramsPresent (metrics (clientStreamOps s ops w)) = clientHistogramsPresent (metrics w)"
proof (induction ops arbitrary: w)
  case Nil
  show ?case by simp
next
  case (Cons x ops)
  show ?case by (cases x) (simp_all add: Cons.IH present_client_step)
qed


section \<open>Facts about pre-registration\<close>

lemma seriesKept_refl: "seriesKept xs xs"
  by (simp add: seriesKept_def)

lemma seriesKept_trans: "seriesKept xs ys \<Longrightarrow> seriesKept ys zs \<Longrightarrow> seriesKept xs zs"
  by (simp add: seriesKept_def)

lemma seriesKept_getOrCreate: "seriesKept xs (getOrCreate k xs)"
  by (simp add: seriesKept_def seriesValue_getOrCreate hasSeries_getOrCreate distinct_getOrCreate)

lemma histogramKept_refl: "histogramKept p p"
  by (cases p) (simp_all add: histogramKept_def seriesKept_refl)

lemma histogramKept_trans: "histogramKept p q \<Longrightarrow> histogramKept q r \<Longrightarrow> histogramKept p r"
  by (cases p; cases q; cases r) (auto simp: histogramKept_def intro: seriesKept_trans)

lemma registryKept_refl: "registryKept m m"
  by (simp add: registryKept_def seriesKept_refl histogramKept_refl)

lemma registryKept_trans: "registryKept a b \<Longrightarrow> registryKept b c \<Longrightarrow> registryKept a c"
  unfolding registryKept_def
  by (auto intro: seriesKept_trans histogramKept_trans)

lemma getAll_simps:
  "getAll f [] xs = xs"
  "getAll f (c # cs) xs = getAll f cs (getOrCreate (f c) xs)"
  by (simp_all add: getAll_def)

lemma seriesKept_getAll: "seriesKept xs (getAll f codes xs)"
proof (induction codes arbitrary: xs)
  case Nil
  show ?case by (simp add: getAll_simps seriesKept_refl)
next
  case (Cons c cs)
  show ?case
    using seriesKept_trans [OF seriesKept_getOrCreate Cons.IH]
    by (simp add: getAll_simps)
qed

lemma hasSeries_getAll: "hasSeries (getAll f codes xs) k = (k \<in> f ` set codes \<or> hasSeries xs k)"
  by (induction codes arbitrary: xs) (auto simp: getAll_simps hasSeries_getOrCreate)

lemma getAll_present: "\<forall>c \<in> set codes. hasSeries xs (f c) \<Longrightarrow> getAll f codes xs = xs"
  by (induction codes arbitrary: xs) (simp_all add: getAll_simps getOrCreate_present)

lemma handled_fold:
  "foldl (\<lambda>m code. m\<lparr>serverHandledCounter :=
                        CounterVec_GetMetricWithLabelValues (serverHandledCounter m) (f code)\<rparr>)
         m codes =
   m\<lparr>serverHandledCounter :=
       (serverHandledCounter m)\<lparr>cSeries := getAll f codes (cSeries (serverHandledCounter m))\<rparr>\<rparr>"
  by (induction codes arbitrary: m)
     (simp_all add: getAll_simps CounterVec_GetMetricWithLabelValues_def)


lemma preRegisterMethod_eq:
  assumes "serverHistogramsPresent m"
  shows "preRegisterMethod tf codes m service mInfo =
     Some (m\<lparr>serverStartedCounter :=
                CounterVec_GetMetricWithLabelValues (serverStartedCounter m) (methodLabels tf service mInfo),
             serverStreamMsgReceived :=
                CounterVec_GetMetricWithLabelValues (serverStreamMsgReceived m) (methodLabels tf service mInfo),
             serverStreamMsgSent :=
                CounterVec_GetMetricWithLabelValues (serverStreamMsgSent m) (methodLabels tf service mInfo),
             serverHandledHistogram :=
                (if serverHandledHistogramEnabled m
                 then map_option (\<lambda>v. HistogramVec_GetMetricWithLabelValues v (methodLabels tf service mInfo))
                        (serverHandledHistogram m)
                 else serverHandledHistogram m),
             serverHandledCounter :=
                (serverHandledCounter m)\<lparr>cSeries :=
                   getAll (\<lambda>code. methodLabels tf service mInfo @ [LCode code]) codes
                     (cSeries (serverHandledCounter m))\<rparr>\<rparr>)"
proof (cases "serverHandledHistogramEnabled m")
  case True
  with assms obtain v where v: "serverHandledHistogram m = Some v"
    by (auto simp: serverHistogramsPresent_def)
  show ?thesis
    by (simp add: preRegisterMethod_def Let_def True v handled_fold methodLabels_def)
next
  case False
  then show ?thesis
    by (simp add: preRegisterMethod_def Let_def handled_fold methodLabels_def)
qed

lemma preRegisterMethod_kept:
  assumes "serverHistogramsPresent m" and "preRegisterMethod tf codes m service mInfo = Some m'"
  shows "registryKept m m'"
proof -
  have hk: "histogramKept (serverHandledHistogram m)
              (map_option (\<lambda>v. HistogramVec_GetMetricWithLabelValues v k) (serverHandledHistogram m))" for k
    by (cases "serverHandledHistogram m")
       (simp_all add: histogramKept_def HistogramVec_GetMetricWithLabelValues_def seriesKept_getOrCreate)
  show ?thesis
    using assms(2) unfolding preRegisterMethod_eq [OF assms(1)]
    by (auto simp: registryKept_def vec_simps seriesKept_getOrCreate seriesKept_getAll
        histogramKept_refl hk)
qed

lemma preRegisterMethod_present:
  assumes "serverHistogramsPresent m" and "preRegisterMethod tf codes m service mInfo = Some m'"
  shows "serverHistogramsPresent m'"
  using assms(1,2) unfolding preRegisterMethod_eq [OF assms(1)]
  by (auto simp: serverHistogramsPresent_def)

lemma preRegisterMethod_registers:
  assumes "serverHistogramsPresent m" and "preRegisterMethod tf codes m service mInfo = Some m'"
  shows "preRegistered tf codes m' service mInfo"
  using assms(1,2) unfolding preRegisterMethod_eq [OF assms(1)]
  by (auto simp: serverHistogramsPresent_def preRegistered_def vec_simps hasSeries_getOrCreate
      hasSeries_getAll histHasSeries_def)

lemma preRegistered_kept:
  assumes "registryKept m m'" and "preRegistered tf codes m service mInfo"
  shows "preRegistered tf codes m' service mInfo"
proof -
  have h: "histHasSeries (serverHandledHistogram m) k \<Longrightarrow> histHasSeries (serverHandledHistogram m') k" for k
    using assms(1)
    by (cases "serverHandledHistogram m"; cases "serverHandledHistogram m'")
       (auto simp: registryKept_def histogramKept_def histHasSeries_def seriesKept_def)
  show ?thesis
    using assms h by (auto simp: registryKept_def preRegistered_def seriesKept_def)
qed

lemma preRegisterMethod_fixed:
  assumes "serverHistogramsPresent m" and "preRegistered tf codes m service mInfo"
  shows "preRegisterMethod tf codes m service mInfo = Some m"
proof -
  have h: "(if serverHandledHistogramEnabled m
            then map_option (\<lambda>v. HistogramVec_GetMetricWithLabelValues v (methodLabels tf service mInfo))
                   (serverHandledHistogram m)
            else serverHandledHistogram m) = serverHandledHistogram m"
    using assms
    by (cases "serverHandledHistogram m")
       (auto simp: preRegistered_def histHasSeries_def HistogramVec_GetMetricWithLabelValues_def
          getOrCreate_present)
  have g: "getAll (\<lambda>code. methodLabels tf service mInfo @ [LCode code]) codes
             (cSeries (serverHandledCounter m)) = cSeries (serverHandledCounter m)"
    using assms(2) by (intro getAll_present) (simp add: preRegistered_def)
  show ?thesis
    using assms(2) unfolding preRegisterMethod_eq [OF assms(1)] h g
    by (simp add: preRegistered_def CounterVec_GetMetricWithLabelValues_def getOrCreate_present)
qed


lemma InitializeMetrics_methods_run:
  "serverHistogramsPresent m \<Longrightarrow>
     \<exists>m'. InitializeMetrics_methods tf codes m service ms = Some m'
        \<and> registryKept m m' \<and> serverHistogramsPresent m'
        \<and> (\<forall>mInfo \<in> set ms. preRegistered tf codes m' service mInfo)"
proof (induction ms arbitrary: m)
  case Nil
  then show ?case by (simp add: registryKept_refl)
next
  case (Cons mInfo ms)
  obtain m1 where m1: "preRegisterMethod tf codes m service mInfo = Some m1"
    using preRegisterMethod_eq [OF Cons.prems] by blast
  have k1: "registryKept m m1" and p1: "serverHistogramsPresent m1"
    and r1: "preRegistered tf codes m1 service mInfo"
    using preRegisterMethod_kept [OF Cons.prems m1] preRegisterMethod_present [OF Cons.prems m1]
      preRegisterMethod_registers [OF Cons.prems m1] by auto
  from Cons.IH [OF p1] obtain m' where
    run: "InitializeMetrics_methods tf codes m1 service ms = Some m'"
    and k2: "registryKept m1 m'" and p2: "serverHistogramsPresent m'"
    and r2: "\<forall>x \<in> set ms. preRegistered tf codes m' service x"
    by blast
  have "InitializeMetrics_methods tf codes m service (mInfo # ms) = Some m'"
    by (simp add: m1 run)
  moreover have "registryKept m m'"
    by (rule registryKept_trans [OF k1 k2])
  moreover have "preRegistered tf codes m' service mInfo"
    by (rule preRegistered_kept [OF k2 r1])
  ultimately show ?case using p2 r2 by simp
qed

lemma allPreRegistered_kept:
  "registryKept m m' \<Longrightarrow> allPreRegistered tf codes m server \<Longrightarrow> allPreRegistered tf codes m' server"
  unfolding allPreRegistered_def
  by (fastforce intro: preRegistered_kept)

lemma allPreRegistered_Cons:
  "allPreRegistered tf codes m ((service, info) # rest) =
     ((\<forall>mInfo \<in> set (Methods info). preRegistered tf codes m service mInfo)
      \<and> allPreRegistered tf codes m rest)"
  by (simp add: allPreRegistered_def)

lemma InitializeMetrics_run:
  "serverHistogramsPresent m \<Longrightarrow>
     \<exists>m'. InitializeMetrics tf codes m server = Some m'
        \<and> registryKept m m' \<and> serverHistogramsPresent m'
        \<and> allPreRegistered tf codes m' server"
proof (induction server arbitrary: m)
  case Nil
  then show ?case by (simp add: registryKept_refl allPreRegistered_def)
next
  case (Cons entry rest)
  obtain service info where entry: "entry = (service, info)"
    by (cases entry)
  from InitializeMetrics_methods_run [OF Cons.prems] obtain m1 where
    run1: "InitializeMetrics_methods tf codes m service (Methods info) = Some m1"
    and k1: "registryKept m m1" and p1: "serverHistogramsPresent m1"
    and r1: "\<forall>x \<in> set (Methods info). preRegistered tf codes m1 service x"
    by blast
  from Cons.IH [OF p1] obtain m' where
    run2: "InitializeMetrics tf codes m1 rest = Some m'"
    and k2: "registryKept m1 m'" and p2: "serverHistogramsPresent m'"
    and r2: "allPreRegistered tf codes m' rest"
    by blast
  have "InitializeMetrics tf codes m (entry # rest) = Some m'"
    by (simp add: entry run1 run2)
  moreover have "registryKept m m'"
    by (rule registryKept_trans [OF k1 k2])
  moreover have "\<forall>x \<in> set (Methods info). preRegistered tf codes m' service x"
    using r1 preRegistered_kept [OF k2] by blast
  ultimately show ?case using p2 r2 by (simp add: entry allPreRegistered_Cons)
qed

lemma InitializeMetrics_methods_fixed:
  "serverHistogramsPresent m \<Longrightarrow> \<forall>mInfo \<in> set ms. preRegistered tf codes m service mInfo \<Longrightarrow>
     InitializeMetrics_methods tf codes m service ms = Some m"
  by (induction ms) (simp_all add: preRegisterMethod_fixed)

lemma InitializeMetrics_fixed:
  "serverHistogramsPresent m \<Longrightarrow> allPreRegistered tf codes m server \<Longrightarrow>
     InitializeMetrics tf codes m server = Some m"
proof (induction server)
  case Nil
  show ?case by simp
next
  case (Cons entry rest)
  obtain service info where entry: "entry = (service, info)"
    by (cases entry)
  show ?case
    using Cons by (simp add: entry allPreRegistered_Cons InitializeMetrics_methods_fixed)
qed

lemma present_InitializeMetrics:
  "serverHistogramsPresent m \<Longrightarrow> InitializeMetrics tf codes m server = Some m' \<Longrightarrow>
     serverHistogramsPresent m'"
  using InitializeMetrics_run [of m tf codes server] by auto

lemma reachableServer_present: "reachableServer m \<Longrightarrow> serverHistogramsPresent m"
proof (induction rule: reachableServer.induct)
  case rs_new
  show ?case by (rule present_NewServerMetrics)
next
  case (rs_enable m opts)
  then show ?case by (simp add: present_EnableHandlingTimeHistogram)
next
  case (rs_init m tf codes server m')
  then show ?case by (blast intro: present_InitializeMetrics)
next
  case (rs_unary m split info h cs)
  then show ?case by (simp add: present_UnaryServerInterceptor)
next
  case (rs_stream m split ss sinfo h cs)
  then show ?case by (simp add: present_StreamServerInterceptor)
qed

lemma reachableClient_present: "reachableClient m \<Longrightarrow> clientHistogramsPresent m"
proof (induction rule: reachableClient.induct)
  case (rc_new ap defMsgBytesBuckets)
  show ?case by (rule present_NewClientMetrics)
next
  case (rc_unary m split fullMethod inv cs)
  then show ?case by (simp add: present_UnaryClientInterceptor)
next
  case (rc_stream m split desc fullMethod str cs)
  then show ?case by (simp add: present_StreamClientInterceptor)
next
  case (rc_ops m s ops cs)
  then show ?case by (simp add: present_clientStreamOps)
qed (simp_all add: present_client_Enable)


section \<open>Further facts used for the properties below\<close>

lemma started_StreamServerInterceptor:
  "seriesValue (cSeries (serverStartedCounter (metrics (snd (StreamServerInterceptor split ss info handler w))))) k =
     seriesValue (cSeries (serverStartedCounter (metrics w))) k
       + (if k = [LType (streamRpcType info), LStr (fst (split (FullMethod info))),
                  LStr (snd (split (FullMethod info)))]
          then 1 else 0)"
  by (simp add: StreamServerInterceptor_def streamHandler_def Let_def split_def reporter_metrics
      server_ops_frame)

lemma fresh_client_values:
  "seriesValue (cSeries (clientStartedCounter (NewClientMetrics ap b))) k = 0"
  "seriesValue (cSeries (clientHandledCounter (NewClientMetrics ap b))) k = 0"
  "seriesValue (cSeries (clientStreamMsgReceived (NewClientMetrics ap b))) k = 0"
  "seriesValue (cSeries (clientStreamMsgSent (NewClientMetrics ap b))) k = 0"
  by (simp_all add: NewClientMetrics_def NewCounterVec_def seriesValue_def)

lemma fresh_server_values:
  "seriesValue (cSeries (serverStartedCounter NewServerMetrics)) k = 0"
  "seriesValue (cSeries (serverHandledCounter NewServerMetrics)) k = 0"
  "seriesValue (cSeries (serverStreamMsgReceived NewServerMetrics)) k = 0"
  "seriesValue (cSeries (serverStreamMsgSent NewServerMetrics)) k = 0"
  by (simp_all add: NewServerMetrics_def NewCounterVec_def seriesValue_def)


lemma fresh_send_enabled:
  "clientStreamSendHistogramEnabled (EnableClientStreamSendTimeHistogram opts (NewClientMetrics ap b))"
  "clientStreamSendHistogram (EnableClientStreamSendTimeHistogram opts (NewClientMetrics ap b)) \<noteq> None"
  "histValue (clientStreamSendHistogram (EnableClientStreamSendTimeHistogram opts (NewClientMetrics ap b))) k = 0"
  "seriesValue (cSeries (clientStreamMsgSent (EnableClientStreamSendTimeHistogram opts (NewClientMetrics ap b)))) k = 0"
  "seriesValue (cSeries (clientStreamMsgReceived (EnableClientStreamSendTimeHistogram opts (NewClientMetrics ap b)))) k = 0"
  by (simp_all add: EnableClientStreamSendTimeHistogram_def NewClientMetrics_def NewCounterVec_def
      NewHistogramVec_def seriesValue_def histValue_def Let_def)

lemma fresh_flags:
  "\<not> serverHandledHistogramEnabled NewServerMetrics"
  "\<not> clientHandledHistogramEnabled (NewClientMetrics ap b)"
  "\<not> clientStreamRecvHistogramEnabled (NewClientMetrics ap b)"
  "\<not> clientStreamSendHistogramEnabled (NewClientMetrics ap b)"
  "\<not> clientMsgSizeReceivedHistogramEnabled (NewClientMetrics ap b)"
  "\<not> clientMsgSizeSentHistogramEnabled (NewClientMetrics ap b)"
  by (simp_all add: NewServerMetrics_def NewClientMetrics_def)

lemma enabled_after:
  "serverHandledHistogramEnabled (EnableHandlingTimeHistogram opts m)"
  "clientHandledHistogramEnabled (EnableClientHandlingTimeHistogram opts c)"
  "clientStreamRecvHistogramEnabled (EnableClientStreamReceiveTimeHistogram opts c)"
  "clientStreamSendHistogramEnabled (EnableClientStreamSendTimeHistogram opts c)"
  "clientMsgSizeReceivedHistogramEnabled (EnableMsgSizeReceivedBytesHistogram opts c)"
  "clientMsgSizeSentHistogramEnabled (EnableMsgSizeSentBytesHistogram opts c)"
  by (simp_all add: EnableHandlingTimeHistogram_def EnableClientHandlingTimeHistogram_def
      EnableClientStreamReceiveTimeHistogram_def EnableClientStreamSendTimeHistogram_def
      EnableMsgSizeReceivedBytesHistogram_def EnableMsgSizeSentBytesHistogram_def Let_def)

lemma buckets_applied:
  "hBuckets (NewHistogramVec (applyOptions [WithHistogramBuckets bs] o1) ls) = bs"
  by (simp add: NewHistogramVec_def applyOptions_def WithHistogramBuckets_def)

lemma send_enable_other_flags:
  "clientHandledHistogramEnabled (EnableClientStreamSendTimeHistogram opts c) = clientHandledHistogramEnabled c"
  "clientStreamRecvHistogramEnabled (EnableClientStreamSendTimeHistogram opts c) = clientStreamRecvHistogramEnabled c"
  "clientMsgSizeReceivedHistogramEnabled (EnableClientStreamSendTimeHistogram opts c) = clientMsgSizeReceivedHistogramEnabled c"
  "clientMsgSizeSentHistogramEnabled (EnableClientStreamSendTimeHistogram opts c) = clientMsgSizeSentHistogramEnabled c"
  by (simp_all add: EnableClientStreamSendTimeHistogram_def Let_def)

section \<open>The properties\<close>

subsection \<open>Started and handled, once per call\<close>

text \<open>
  C1, as stated, fails for the streaming client interceptor: when the streamer succeeds
  the interceptor returns the decorated stream without any call of \<^verbatim>\<open>Handled\<close>, and a
  user who then sends one message and receives one has still caused none.
\<close>

theorem C1_counterexample:
  "handledCount (calls (snd (StreamClientInterceptor (Pair ''svc'')
       \<lparr>ClientStreams = True, ServerStreams = True\<rparr> ''m'' ((), None)
       \<lparr>metrics = NewClientMetrics id [], calls = []\<rparr>))) = 0
   \<and> fst (StreamClientInterceptor (Pair ''svc'')
       \<lparr>ClientStreams = True, ServerStreams = True\<rparr> ''m'' ((), None)
       \<lparr>metrics = NewClientMetrics id [], calls = []\<rparr>) =
     (Some \<lparr>Stream = (), monitor = \<lparr>rpcType = BidiStream, serviceName = ''svc'', methodName = ''m''\<rparr>\<rparr>, None)
   \<and> handledCount (calls (clientStreamOps
       \<lparr>Stream = (), monitor = \<lparr>rpcType = BidiStream, serviceName = ''svc'', methodName = ''m''\<rparr>\<rparr>
       [SendMsg None, RecvMsg None]
       (snd (StreamClientInterceptor (Pair ''svc'')
          \<lparr>ClientStreams = True, ServerStreams = True\<rparr> ''m'' ((), None)
          \<lparr>metrics = NewClientMetrics id [], calls = []\<rparr>)))) = 0"
  by (simp add: calls_StreamClientInterceptor fst_StreamClientInterceptor calls_client_SendMsg
      calls_client_RecvMsg handledCount_simps clientStreamType_def)

text \<open>
  C1, amended.  Whenever the wrapped handler or invoker returns, with or without an error,
  the unary server, streaming server and unary client interceptors increment the started
  counter of the call's label tuple by one (no other started series changes) and call
  \<^verbatim>\<open>Handled\<close> exactly once; the sends and receives a stream handler makes on the
  decorated server stream add no call of \<^verbatim>\<open>Handled\<close>.  The streaming client
  interceptor increments the started counter once as well; it calls
  \<^verbatim>\<open>Handled\<close> once when the streamer fails and not at all when it succeeds:
  then the decorated stream calls it, once for every receive that the embedded stream
  answers with end-of-stream or an error.
\<close>

theorem C1_started_and_handled:
  "handledCount (calls (snd (UnaryServerInterceptor split info (resp, err) w))) = handledCount (calls w) + 1
   \<and> seriesValue (cSeries (serverStartedCounter (metrics (snd (UnaryServerInterceptor split info (resp, err) w))))) k =
       seriesValue (cSeries (serverStartedCounter (metrics w))) k
         + (if k = [LType Unary, LStr (fst (split (FullMethod info))), LStr (snd (split (FullMethod info)))]
            then 1 else 0)
   \<and> handledCount (calls (snd (StreamServerInterceptor split ss sinfo (ops, err) w))) = handledCount (calls w) + 1
   \<and> seriesValue (cSeries (serverStartedCounter (metrics (snd (StreamServerInterceptor split ss sinfo (ops, err) w))))) k =
       seriesValue (cSeries (serverStartedCounter (metrics w))) k
         + (if k = [LType (streamRpcType sinfo), LStr (fst (split (FullMethod sinfo))),
                    LStr (snd (split (FullMethod sinfo)))]
            then 1 else 0)
   \<and> handledCount (calls (snd (UnaryClientInterceptor split method err c))) = handledCount (calls c) + 1
   \<and> seriesValue (cSeries (clientStartedCounter (metrics (snd (UnaryClientInterceptor split method err c))))) k =
       seriesValue (cSeries (clientStartedCounter (metrics c))) k
         + (if k = [LType Unary, LStr (fst (split method)), LStr (snd (split method))] then 1 else 0)
   \<and> handledCount (calls (snd (StreamClientInterceptor split desc method (cs, err) c))) =
       handledCount (calls c) + (if err \<noteq> None then 1 else 0)
   \<and> seriesValue (cSeries (clientStartedCounter (metrics (snd (StreamClientInterceptor split desc method (cs, err) c))))) k =
       seriesValue (cSeries (clientStartedCounter (metrics c))) k
         + (if k = [LType (clientStreamType desc), LStr (fst (split method)), LStr (snd (split method))]
            then 1 else 0)
   \<and> handledCount (calls (clientStreamOps s ops
         (snd (StreamClientInterceptor split desc method (cs, None) c)))) =
       handledCount (calls c) + countOps recvFailed ops"
proof -
  have a: "handledCount (calls (snd (UnaryServerInterceptor split info (resp, err) w))) = handledCount (calls w) + 1"
    by (simp add: calls_UnaryServerInterceptor handledCount_simps)
  have b: "handledCount (calls (snd (StreamServerInterceptor split ss sinfo (ops, err) w))) = handledCount (calls w) + 1"
    by (simp add: calls_StreamServerInterceptor handledCount_simps handledCount_serverOps)
  have c: "handledCount (calls (snd (UnaryClientInterceptor split method err c))) = handledCount (calls c) + 1"
    by (simp add: calls_UnaryClientInterceptor handledCount_simps)
  have d: "handledCount (calls (snd (StreamClientInterceptor split desc method (cs, err) c))) =
       handledCount (calls c) + (if err \<noteq> None then 1 else 0)"
    by (simp add: calls_StreamClientInterceptor handledCount_simps)
  have e: "handledCount (calls (clientStreamOps s ops
         (snd (StreamClientInterceptor split desc method (cs, None) c)))) =
       handledCount (calls c) + countOps recvFailed ops"
    by (simp add: calls_clientStreamOps calls_StreamClientInterceptor handledCount_simps
        handledCount_clientOps)
  show ?thesis
    using a b c d e started_UnaryServerInterceptor [of split info "(resp, err)" w k]
      started_StreamServerInterceptor [of split ss sinfo "(ops, err)" w k]
      started_UnaryClientInterceptor [of split "method" "err" c k]
      started_StreamClientInterceptor [of split desc "method" "(cs, err)" c k]
    by blast
qed

text \<open>
  C1, amended, at a unary server call whose handler fails and a client stream whose
  streamer fails, on fresh registries.
\<close>

theorem C1_started_and_handled_witness:
  "handledCount (calls (snd (UnaryServerInterceptor (Pair ''svc'') \<lparr>FullMethod = ''m''\<rparr>
       ((), Some (OtherError ''boom'')) \<lparr>metrics = NewServerMetrics, calls = []\<rparr>))) = 1
   \<and> seriesValue (cSeries (serverStartedCounter (metrics (snd (UnaryServerInterceptor (Pair ''svc'')
       \<lparr>FullMethod = ''m''\<rparr> ((), Some (OtherError ''boom''))
       \<lparr>metrics = NewServerMetrics, calls = []\<rparr>)))))
       [LType Unary, LStr ''svc'', LStr ''m''] = 1
   \<and> handledCount (calls (snd (StreamClientInterceptor (Pair ''svc'')
       \<lparr>ClientStreams = True, ServerStreams = False\<rparr> ''m'' ((), Some (OtherError ''boom''))
       \<lparr>metrics = NewClientMetrics id [], calls = []\<rparr>))) = 1"
  using C1_started_and_handled [of "Pair ''svc''" "\<lparr>FullMethod = ''m''\<rparr>" "()"
      "Some (OtherError ''boom'')" "\<lparr>metrics = NewServerMetrics, calls = []\<rparr>"
      "[LType Unary, LStr ''svc'', LStr ''m'']" "()"
      "\<lparr>FullMethod = ''m'', IsClientStream = True, IsServerStream = False\<rparr>" "[]" "''m''"
      "\<lparr>metrics = NewClientMetrics id [], calls = []\<rparr>"
      "\<lparr>ClientStreams = True, ServerStreams = False\<rparr>" "()"
      "\<lparr>Stream = (), monitor = \<lparr>rpcType = ClientStream, serviceName = ''svc'', methodName = ''m''\<rparr>\<rparr>"]
  by (simp add: handledCount_simps fresh_server_values)

subsection \<open>The shape of a streaming call\<close>

text \<open>
  C2, as stated, fails: for a descriptor with neither streaming flag set both derivation
  functions yield \<open>BidiStream\<close>, not \<open>Unary\<close>.
\<close>

theorem C2_counterexample:
  "clientStreamType \<lparr>ClientStreams = False, ServerStreams = False\<rparr> = BidiStream
   \<and> clientStreamType \<lparr>ClientStreams = False, ServerStreams = False\<rparr> \<noteq> Unary
   \<and> streamRpcType \<lparr>FullMethod = ''/svc/m'', IsClientStream = False, IsServerStream = False\<rparr> = BidiStream
   \<and> streamRpcType \<lparr>FullMethod = ''/svc/m'', IsClientStream = False, IsServerStream = False\<rparr> \<noteq> Unary"
  by (simp add: clientStreamType_def streamRpcType_def)

text \<open>
  C2, amended.  Client-streaming only yields \<open>ClientStream\<close>, server-streaming only
  yields \<open>ServerStream\<close>, and every other descriptor (both flags set, or neither)
  yields \<open>BidiStream\<close>; neither function ever yields \<open>Unary\<close>.  This holds for the
  client-side and for the server-side function.
\<close>

theorem C2_stream_shape:
  fixes desc :: StreamDesc and info :: StreamServerInfo
  shows
  "(ClientStreams desc \<and> \<not> ServerStreams desc \<longrightarrow> clientStreamType desc = ClientStream)
   \<and> (\<not> ClientStreams desc \<and> ServerStreams desc \<longrightarrow> clientStreamType desc = ServerStream)
   \<and> (ClientStreams desc = ServerStreams desc \<longrightarrow> clientStreamType desc = BidiStream)
   \<and> clientStreamType desc \<noteq> Unary
   \<and> (IsClientStream info \<and> \<not> IsServerStream info \<longrightarrow> streamRpcType info = ClientStream)
   \<and> (\<not> IsClientStream info \<and> IsServerStream info \<longrightarrow> streamRpcType info = ServerStream)
   \<and> (IsClientStream info = IsServerStream info \<longrightarrow> streamRpcType info = BidiStream)
   \<and> streamRpcType info \<noteq> Unary"
  by (simp add: clientStreamType_def streamRpcType_def)

text \<open>
  C2, amended, at each of the four combinations of the flags, on both sides.
\<close>

theorem C2_stream_shape_witness:
  "clientStreamType \<lparr>ClientStreams = True, ServerStreams = False\<rparr> = ClientStream
   \<and> clientStreamType \<lparr>ClientStreams = False, ServerStreams = True\<rparr> = ServerStream
   \<and> clientStreamType \<lparr>ClientStreams = True, ServerStreams = True\<rparr> = BidiStream
   \<and> clientStreamType \<lparr>ClientStreams = False, ServerStreams = False\<rparr> = BidiStream
   \<and> streamRpcType \<lparr>FullMethod = ''/svc/m'', IsClientStream = True, IsServerStream = False\<rparr> = ClientStream
   \<and> streamRpcType \<lparr>FullMethod = ''/svc/m'', IsClientStream = False, IsServerStream = True\<rparr> = ServerStream
   \<and> streamRpcType \<lparr>FullMethod = ''/svc/m'', IsClientStream = True, IsServerStream = True\<rparr> = BidiStream
   \<and> streamRpcType \<lparr>FullMethod = ''/svc/m'', IsClientStream = False, IsServerStream = False\<rparr> = BidiStream"
  using C2_stream_shape [of "\<lparr>ClientStreams = True, ServerStreams = False\<rparr>"
          "\<lparr>FullMethod = ''/svc/m'', IsClientStream = True, IsServerStream = False\<rparr>"]
        C2_stream_shape [of "\<lparr>ClientStreams = False, ServerStreams = True\<rparr>"
          "\<lparr>FullMethod = ''/svc/m'', IsClientStream = False, IsServerStream = True\<rparr>"]
        C2_stream_shape [of "\<lparr>ClientStreams = True, ServerStreams = True\<rparr>"
          "\<lparr>FullMethod = ''/svc/m'', IsClientStream = True, IsServerStream = True\<rparr>"]
        C2_stream_shape [of "\<lparr>ClientStreams = False, ServerStreams = False\<rparr>"
          "\<lparr>FullMethod = ''/svc/m'', IsClientStream = False, IsServerStream = False\<rparr>"]
  by simp

subsection \<open>Handled on a decorated client stream\<close>

text \<open>
  C3, as stated, fails: two receives that the embedded stream both answers with
  end-of-stream call \<^verbatim>\<open>Handled\<close> twice.
\<close>

theorem C3_counterexample:
  "handledCount (calls (clientStreamOps
       \<lparr>Stream = (), monitor = \<lparr>rpcType = ServerStream, serviceName = ''svc'', methodName = ''m''\<rparr>\<rparr>
       [RecvMsg (Some EOF), RecvMsg (Some EOF)]
       \<lparr>metrics = NewClientMetrics id [], calls = []\<rparr>)) = 2"
  by (simp add: calls_client_RecvMsg handledCount_simps)

text \<open>
  C3, amended.  Over any sequence of sends and receives on a decorated client stream,
  \<^verbatim>\<open>Handled\<close> is called once for each receive that the embedded stream answers
  with end-of-stream or an error, and never by a send or a successful receive.  So it is
  called at most once as long as the embedded stream gives such an answer to at most one
  receive.
\<close>

theorem C3_handled_per_failed_receive:
  "handledCount (calls (clientStreamOps s ops w)) = handledCount (calls w) + countOps recvFailed ops
   \<and> handledCount (calls (snd (monitoredClientStream_RecvMsg s res w))) =
       handledCount (calls w) + (if res = None then 0 else 1)
   \<and> handledCount (calls (snd (monitoredClientStream_SendMsg s res w))) = handledCount (calls w)
   \<and> (countOps recvFailed ops \<le> 1 \<longrightarrow>
        handledCount (calls (clientStreamOps s ops w)) \<le> handledCount (calls w) + 1)"
  by (simp add: calls_clientStreamOps calls_client_RecvMsg calls_client_SendMsg handledCount_simps
      handledCount_clientOps)

text \<open>
  C3, amended, at a stream that is sent one message and read twice, the second read
  reaching end-of-stream.
\<close>

theorem C3_handled_per_failed_receive_witness:
  "countOps recvFailed [SendMsg None, RecvMsg None, RecvMsg (Some EOF)] \<le> 1
   \<and> handledCount (calls (clientStreamOps
        \<lparr>Stream = (), monitor = \<lparr>rpcType = ServerStream, serviceName = ''svc'', methodName = ''m''\<rparr>\<rparr>
        [SendMsg None, RecvMsg None, RecvMsg (Some EOF)]
        \<lparr>metrics = NewClientMetrics id [], calls = []\<rparr>)) \<le> 1"
  using C3_handled_per_failed_receive
    [of "\<lparr>Stream = (), monitor = \<lparr>rpcType = ServerStream, serviceName = ''svc'', methodName = ''m''\<rparr>\<rparr>"
        "[SendMsg None, RecvMsg None, RecvMsg (Some EOF)]"
        "\<lparr>metrics = NewClientMetrics id [], calls = []\<rparr>" None]
  by (simp add: countOps_def handledCount_simps)

subsection \<open>A unary call that ends with "not found"\<close>

text \<open>
  C4, as stated, fails on the client path: a unary client call whose invoker returns a
  "not found" status leaves the sent-messages counter of the call at 1, not 0, on a fresh
  registry.
\<close>

theorem C4_counterexample:
  "seriesValue (cSeries (clientStreamMsgSent (metrics (snd (UnaryClientInterceptor (Pair ''svc'') ''m''
       (Some (StatusError (Status codes_NotFound ''not found'')))
       \<lparr>metrics = NewClientMetrics id [], calls = []\<rparr>)))))
     [LType Unary, LStr ''svc'', LStr ''m''] = 1"
  by (simp add: sent_UnaryClientInterceptor fresh_client_values)

text \<open>
  C4, amended.  A unary call whose handler or invoker returns an error with status code
  "not found" increments the handled counter of (Unary, service, method, NotFound) by one
  on both paths.  On the server path no sent-messages series changes.  On the client
  path the sent-messages counter of the call increases by one (the message is counted
  before the invoker runs) and no received-messages series changes.
\<close>

theorem C4_not_found:
  "seriesValue (cSeries (serverHandledCounter (metrics (snd (UnaryServerInterceptor split info
        (resp, Some (StatusError (Status codes_NotFound msg))) w)))))
      [LType Unary, LStr (fst (split (FullMethod info))), LStr (snd (split (FullMethod info))),
       LCode codes_NotFound] =
     seriesValue (cSeries (serverHandledCounter (metrics w)))
      [LType Unary, LStr (fst (split (FullMethod info))), LStr (snd (split (FullMethod info))),
       LCode codes_NotFound] + 1
   \<and> seriesValue (cSeries (serverStreamMsgSent (metrics (snd (UnaryServerInterceptor split info
        (resp, Some (StatusError (Status codes_NotFound msg))) w))))) k =
     seriesValue (cSeries (serverStreamMsgSent (metrics w))) k
   \<and> seriesValue (cSeries (clientHandledCounter (metrics (snd (UnaryClientInterceptor split method
        (Some (StatusError (Status codes_NotFound msg))) c)))))
      [LType Unary, LStr (fst (split method)), LStr (snd (split method)), LCode codes_NotFound] =
     seriesValue (cSeries (clientHandledCounter (metrics c)))
      [LType Unary, LStr (fst (split method)), LStr (snd (split method)), LCode codes_NotFound] + 1
   \<and> seriesValue (cSeries (clientStreamMsgSent (metrics (snd (UnaryClientInterceptor split method
        (Some (StatusError (Status codes_NotFound msg))) c)))))
      [LType Unary, LStr (fst (split method)), LStr (snd (split method))] =
     seriesValue (cSeries (clientStreamMsgSent (metrics c)))
      [LType Unary, LStr (fst (split method)), LStr (snd (split method))] + 1
   \<and> seriesValue (cSeries (clientStreamMsgReceived (metrics (snd (UnaryClientInterceptor split method
        (Some (StatusError (Status codes_NotFound msg))) c))))) k =
     seriesValue (cSeries (clientStreamMsgReceived (metrics c))) k"
  by (simp add: handled_UnaryServerInterceptor sent_UnaryServerInterceptor
      handled_UnaryClientInterceptor sent_UnaryClientInterceptor received_UnaryClientInterceptor)

text \<open>
  C4, amended, on fresh registries.
\<close>

theorem C4_not_found_witness:
  "seriesValue (cSeries (serverHandledCounter (metrics (snd (UnaryServerInterceptor (Pair ''svc'')
        \<lparr>FullMethod = ''m''\<rparr> ((), Some (StatusError (Status codes_NotFound ''not found'')))
        \<lparr>metrics = NewServerMetrics, calls = []\<rparr>)))))
      [LType Unary, LStr ''svc'', LStr ''m'', LCode codes_NotFound] = 1
   \<and> seriesValue (cSeries (serverStreamMsgSent (metrics (snd (UnaryServerInterceptor (Pair ''svc'')
        \<lparr>FullMethod = ''m''\<rparr> ((), Some (StatusError (Status codes_NotFound ''not found'')))
        \<lparr>metrics = NewServerMetrics, calls = []\<rparr>)))))
      [LType Unary, LStr ''svc'', LStr ''m''] = 0
   \<and> seriesValue (cSeries (clientHandledCounter (metrics (snd (UnaryClientInterceptor (Pair ''svc'') ''m''
        (Some (StatusError (Status codes_NotFound ''not found'')))
        \<lparr>metrics = NewClientMetrics id [], calls = []\<rparr>)))))
      [LType Unary, LStr ''svc'', LStr ''m'', LCode codes_NotFound] = 1
   \<and> seriesValue (cSeries (clientStreamMsgReceived (metrics (snd (UnaryClientInterceptor (Pair ''svc'') ''m''
        (Some (StatusError (Status codes_NotFound ''not found'')))
        \<lparr>metrics = NewClientMetrics id [], calls = []\<rparr>)))))
      [LType Unary, LStr ''svc'', LStr ''m''] = 0"
  using C4_not_found [of "Pair ''svc''" "\<lparr>FullMethod = ''m''\<rparr>" "()" "''not found''"
      "\<lparr>metrics = NewServerMetrics, calls = []\<rparr>" "[LType Unary, LStr ''svc'', LStr ''m'']"
      "''m''" "\<lparr>metrics = NewClientMetrics id [], calls = []\<rparr>"]
  by (simp add: fresh_server_values fresh_client_values)

subsection \<open>The unary client interceptor\<close>

text \<open>
  C5.  A unary client call makes, in this order: the reporter, a sent-message event, the
  wrapped invoker, a received-message event only if the invoker returned no error, and
  \<^verbatim>\<open>Handled\<close> with the code of the returned error: OK for no error, the
  status code of an error that carries a status, Unknown for any other error.  It
  returns the invoker's error as it is.
\<close>

theorem C5_unary_client_calls:
  "fst (UnaryClientInterceptor split method err w) = err
   \<and> calls (snd (UnaryClientInterceptor split method err w)) =
       calls w @ [CallNewReporter Unary method, CallSentMessage, CallInvoker]
         @ (if err = None then [CallReceivedMessage] else [])
         @ [CallHandled (case err of None \<Rightarrow> codes_OK
                         | Some (StatusError (Status c msg)) \<Rightarrow> c
                         | Some e \<Rightarrow> codes_Unknown)]"
  by (simp add: fst_UnaryClientInterceptor calls_UnaryClientInterceptor Status_Code_FromError)

text \<open>
  C5 at a successful call and at a call failing with an error that carries no status.
\<close>

theorem C5_unary_client_calls_witness:
  "calls (snd (UnaryClientInterceptor (Pair ''svc'') ''m'' None
       \<lparr>metrics = NewClientMetrics id [], calls = []\<rparr>)) =
     [CallNewReporter Unary ''m'', CallSentMessage, CallInvoker, CallReceivedMessage,
      CallHandled codes_OK]
   \<and> calls (snd (UnaryClientInterceptor (Pair ''svc'') ''m'' (Some (OtherError ''boom''))
       \<lparr>metrics = NewClientMetrics id [], calls = []\<rparr>)) =
     [CallNewReporter Unary ''m'', CallSentMessage, CallInvoker, CallHandled codes_Unknown]
   \<and> fst (UnaryClientInterceptor (Pair ''svc'') ''m'' (Some (OtherError ''boom''))
       \<lparr>metrics = NewClientMetrics id [], calls = []\<rparr>) = Some (OtherError ''boom'')"
  using C5_unary_client_calls [of "Pair ''svc''" "''m''" None
          "\<lparr>metrics = NewClientMetrics id [], calls = []\<rparr>"]
        C5_unary_client_calls [of "Pair ''svc''" "''m''" "Some (OtherError ''boom'')"
          "\<lparr>metrics = NewClientMetrics id [], calls = []\<rparr>"]
  by simp

subsection \<open>Message counts on decorated streams\<close>

text \<open>
  C6.  Over any sequence of sends and receives on a decorated server or client stream,
  the sent-messages counter of the call's tuple increases by the number of successful
  sends and the received-messages counter by the number of successful receives; failed
  ones add nothing, and no other tuple changes.  On the client side the timer's duration
  is observed once per send or receive whatever its outcome, and where the send or
  receive latency histogram is enabled its series for the tuple gains one observation per
  send or receive attempted.
\<close>

theorem C6_stream_message_counts:
  "seriesValue (cSeries (serverStreamMsgSent (metrics (serverStreamOps ss ops sw)))) k =
     seriesValue (cSeries (serverStreamMsgSent (metrics sw))) k
       + (if k = labels3 (monitor ss) then countOps sendOk ops else 0)
   \<and> seriesValue (cSeries (serverStreamMsgReceived (metrics (serverStreamOps ss ops sw)))) k =
     seriesValue (cSeries (serverStreamMsgReceived (metrics sw))) k
       + (if k = labels3 (monitor ss) then countOps recvOk ops else 0)
   \<and> seriesValue (cSeries (clientStreamMsgSent (metrics (clientStreamOps cs ops cw)))) k =
     seriesValue (cSeries (clientStreamMsgSent (metrics cw))) k
       + (if k = labels3 (monitor cs) then countOps sendOk ops else 0)
   \<and> seriesValue (cSeries (clientStreamMsgReceived (metrics (clientStreamOps cs ops cw)))) k =
     seriesValue (cSeries (clientStreamMsgReceived (metrics cw))) k
       + (if k = labels3 (monitor cs) then countOps recvOk ops else 0)
   \<and> observeCount (calls (clientStreamOps cs ops cw)) = observeCount (calls cw) + length ops
   \<and> histValue (clientStreamSendHistogram (metrics (clientStreamOps cs ops cw))) k =
     histValue (clientStreamSendHistogram (metrics cw)) k
       + (if clientStreamSendHistogramEnabled (metrics cw)
             \<and> clientStreamSendHistogram (metrics cw) \<noteq> None
             \<and> k = labels3 (monitor cs)
          then countOps isSend ops else 0)
   \<and> histValue (clientStreamRecvHistogram (metrics (clientStreamOps cs ops cw))) k =
     histValue (clientStreamRecvHistogram (metrics cw)) k
       + (if clientStreamRecvHistogramEnabled (metrics cw)
             \<and> clientStreamRecvHistogram (metrics cw) \<noteq> None
             \<and> k = labels3 (monitor cs)
          then countOps isRecv ops else 0)"
  using server_ops_sent [of ss ops sw k] server_ops_received [of ss ops sw k]
    client_ops_sent [of cs ops cw k] client_ops_received [of cs ops cw k]
    client_ops_sendHist [of cs ops cw k] client_ops_recvHist [of cs ops cw k]
  by (simp add: calls_clientStreamOps observeCount_simps observeCount_clientOps)

text \<open>
  C6 at a stream with three sends (one failing) and two receives (the second reaching
  end-of-stream), the send latency histogram being enabled on the client.
\<close>

theorem C6_stream_message_counts_witness:
  "seriesValue (cSeries (clientStreamMsgSent (metrics (clientStreamOps
        \<lparr>Stream = (), monitor = \<lparr>rpcType = BidiStream, serviceName = ''svc'', methodName = ''m''\<rparr>\<rparr>
        [SendMsg None, SendMsg (Some (OtherError ''boom'')), RecvMsg None, SendMsg None, RecvMsg (Some EOF)]
        \<lparr>metrics = EnableClientStreamSendTimeHistogram [] (NewClientMetrics id []), calls = []\<rparr>))))
      [LType BidiStream, LStr ''svc'', LStr ''m''] = 2
   \<and> seriesValue (cSeries (clientStreamMsgReceived (metrics (clientStreamOps
        \<lparr>Stream = (), monitor = \<lparr>rpcType = BidiStream, serviceName = ''svc'', methodName = ''m''\<rparr>\<rparr>
        [SendMsg None, SendMsg (Some (OtherError ''boom'')), RecvMsg None, SendMsg None, RecvMsg (Some EOF)]
        \<lparr>metrics = EnableClientStreamSendTimeHistogram [] (NewClientMetrics id []), calls = []\<rparr>))))
      [LType BidiStream, LStr ''svc'', LStr ''m''] = 1
   \<and> observeCount (calls (clientStreamOps
        \<lparr>Stream = (), monitor = \<lparr>rpcType = BidiStream, serviceName = ''svc'', methodName = ''m''\<rparr>\<rparr>
        [SendMsg None, SendMsg (Some (OtherError ''boom'')), RecvMsg None, SendMsg None, RecvMsg (Some EOF)]
        \<lparr>metrics = EnableClientStreamSendTimeHistogram [] (NewClientMetrics id []), calls = []\<rparr>)) = 5
   \<and> histValue (clientStreamSendHistogram (metrics (clientStreamOps
        \<lparr>Stream = (), monitor = \<lparr>rpcType = BidiStream, serviceName = ''svc'', methodName = ''m''\<rparr>\<rparr>
        [SendMsg None, SendMsg (Some (OtherError ''boom'')), RecvMsg None, SendMsg None, RecvMsg (Some EOF)]
        \<lparr>metrics = EnableClientStreamSendTimeHistogram [] (NewClientMetrics id []), calls = []\<rparr>)))
      [LType BidiStream, LStr ''svc'', LStr ''m''] = 3
   \<and> seriesValue (cSeries (serverStreamMsgSent (metrics (serverStreamOps
        \<lparr>Stream = (), monitor = \<lparr>rpcType = BidiStream, serviceName = ''svc'', methodName = ''m''\<rparr>\<rparr>
        [SendMsg None, SendMsg (Some (OtherError ''boom'')), RecvMsg None, SendMsg None, RecvMsg (Some EOF)]
        \<lparr>metrics = NewServerMetrics, calls = []\<rparr>))))
      [LType BidiStream, LStr ''svc'', LStr ''m''] = 2"
  using C6_stream_message_counts
    [of "\<lparr>Stream = (), monitor = \<lparr>rpcType = BidiStream, serviceName = ''svc'', methodName = ''m''\<rparr>\<rparr>"
        "[SendMsg None, SendMsg (Some (OtherError ''boom'')), RecvMsg None, SendMsg None, RecvMsg (Some EOF)]"
        "\<lparr>metrics = NewServerMetrics, calls = []\<rparr>"
        "[LType BidiStream, LStr ''svc'', LStr ''m'']"
        "\<lparr>Stream = (), monitor = \<lparr>rpcType = BidiStream, serviceName = ''svc'', methodName = ''m''\<rparr>\<rparr>"
        "\<lparr>metrics = EnableClientStreamSendTimeHistogram [] (NewClientMetrics id []), calls = []\<rparr>"]
  by (simp add: countOps_def labels3_def fresh_server_values fresh_send_enabled observeCount_simps
      del: clientStreamOps.simps serverStreamOps.simps)

subsection \<open>Enabling a histogram\<close>

text \<open>
  C7.  For each of the six enabling methods: on a registry whose flag is clear, the call
  creates the histogram vector from the options accumulated so far (the stored options
  with the call's options applied in order) and sets the flag; on a registry whose flag
  is set, the call leaves the flag set and the vector as it is, whatever options it is
  given.
\<close>

theorem C7_enable_histogram:
  "(\<not> serverHandledHistogramEnabled m \<longrightarrow>
      serverHandledHistogramEnabled (EnableHandlingTimeHistogram opts m)
      \<and> serverHandledHistogram (EnableHandlingTimeHistogram opts m) =
          Some (NewHistogramVec (applyOptions opts (serverHandledHistogramOpts m))
                  [''grpc_type'', ''grpc_service'', ''grpc_method'']))
   \<and> (serverHandledHistogramEnabled m \<longrightarrow>
      serverHandledHistogramEnabled (EnableHandlingTimeHistogram opts m)
      \<and> serverHandledHistogram (EnableHandlingTimeHistogram opts m) = serverHandledHistogram m)
   \<and> (\<not> clientHandledHistogramEnabled c \<longrightarrow>
      clientHandledHistogramEnabled (EnableClientHandlingTimeHistogram opts c)
      \<and> clientHandledHistogram (EnableClientHandlingTimeHistogram opts c) =
          Some (NewHistogramVec (applyOptions opts (clientHandledHistogramOpts c))
                  [''grpc_type'', ''grpc_service'', ''grpc_method'']))
   \<and> (clientHandledHistogramEnabled c \<longrightarrow>
      clientHandledHistogramEnabled (EnableClientHandlingTimeHistogram opts c)
      \<and> clientHandledHistogram (EnableClientHandlingTimeHistogram opts c) = clientHandledHistogram c)
   \<and> (\<not> clientStreamRecvHistogramEnabled c \<longrightarrow>
      clientStreamRecvHistogramEnabled (EnableClientStreamReceiveTimeHistogram opts c)
      \<and> clientStreamRecvHistogram (EnableClientStreamReceiveTimeHistogram opts c) =
          Some (NewHistogramVec (applyOptions opts (clientStreamRecvHistogramOpts c))
                  [''grpc_type'', ''grpc_service'', ''grpc_method'']))
   \<and> (clientStreamRecvHistogramEnabled c \<longrightarrow>
      clientStreamRecvHistogramEnabled (EnableClientStreamReceiveTimeHistogram opts c)
      \<and> clientStreamRecvHistogram (EnableClientStreamReceiveTimeHistogram opts c) =
          clientStreamRecvHistogram c)
   \<and> (\<not> clientStreamSendHistogramEnabled c \<longrightarrow>
      clientStreamSendHistogramEnabled (EnableClientStreamSendTimeHistogram opts c)
      \<and> clientStreamSendHistogram (EnableClientStreamSendTimeHistogram opts c) =
          Some (NewHistogramVec (applyOptions opts (clientStreamSendHistogramOpts c))
                  [''grpc_type'', ''grpc_service'', ''grpc_method'']))
   \<and> (clientStreamSendHistogramEnabled c \<longrightarrow>
      clientStreamSendHistogramEnabled (EnableClientStreamSendTimeHistogram opts c)
      \<and> clientStreamSendHistogram (EnableClientStreamSendTimeHistogram opts c) =
          clientStreamSendHistogram c)
   \<and> (\<not> clientMsgSizeReceivedHistogramEnabled c \<longrightarrow>
      clientMsgSizeReceivedHistogramEnabled (EnableMsgSizeReceivedBytesHistogram opts c)
      \<and> clientMsgSizeReceivedHistogram (EnableMsgSizeReceivedBytesHistogram opts c) =
          Some (NewHistogramVec (applyOptions opts (clientMsgSizeReceivedHistogramOpts c))
                  [''grpc_service'', ''grpc_method'', ''grpc_stats'']))
   \<and> (clientMsgSizeReceivedHistogramEnabled c \<longrightarrow>
      clientMsgSizeReceivedHistogramEnabled (EnableMsgSizeReceivedBytesHistogram opts c)
      \<and> clientMsgSizeReceivedHistogram (EnableMsgSizeReceivedBytesHistogram opts c) =
          clientMsgSizeReceivedHistogram c)
   \<and> (\<not> clientMsgSizeSentHistogramEnabled c \<longrightarrow>
      clientMsgSizeSentHistogramEnabled (EnableMsgSizeSentBytesHistogram opts c)
      \<and> clientMsgSizeSentHistogram (EnableMsgSizeSentBytesHistogram opts c) =
          Some (NewHistogramVec (applyOptions opts (clientMsgSizeSentHistogramOpts c))
                  [''grpc_service'', ''grpc_method'', ''grpc_stats'']))
   \<and> (clientMsgSizeSentHistogramEnabled c \<longrightarrow>
      clientMsgSizeSentHistogramEnabled (EnableMsgSizeSentBytesHistogram opts c)
      \<and> clientMsgSizeSentHistogram (EnableMsgSizeSentBytesHistogram opts c) =
          clientMsgSizeSentHistogram c)"
  by (simp add: EnableHandlingTimeHistogram_def EnableClientHandlingTimeHistogram_def
      EnableClientStreamReceiveTimeHistogram_def EnableClientStreamSendTimeHistogram_def
      EnableMsgSizeReceivedBytesHistogram_def EnableMsgSizeSentBytesHistogram_def Let_def)

text \<open>
  C7 on fresh registries and on registries with the histogram already enabled: the
  buckets given to the first call are those of the vector, the buckets given to a later
  call are not.
\<close>

theorem C7_enable_histogram_witness:
  "\<not> serverHandledHistogramEnabled NewServerMetrics
   \<and> map_option hBuckets (serverHandledHistogram
        (EnableHandlingTimeHistogram [WithHistogramBuckets [1, 2]] NewServerMetrics)) = Some [1, 2]
   \<and> serverHandledHistogramEnabled (EnableHandlingTimeHistogram [WithHistogramBuckets [1, 2]] NewServerMetrics)
   \<and> serverHandledHistogram
        (EnableHandlingTimeHistogram [WithHistogramBuckets [5]]
           (EnableHandlingTimeHistogram [WithHistogramBuckets [1, 2]] NewServerMetrics)) =
      serverHandledHistogram (EnableHandlingTimeHistogram [WithHistogramBuckets [1, 2]] NewServerMetrics)
   \<and> clientHandledHistogram
        (EnableClientHandlingTimeHistogram [WithHistogramBuckets [5]]
           (EnableClientHandlingTimeHistogram [] (NewClientMetrics id []))) =
      clientHandledHistogram (EnableClientHandlingTimeHistogram [] (NewClientMetrics id []))
   \<and> clientStreamRecvHistogram
        (EnableClientStreamReceiveTimeHistogram [WithHistogramBuckets [5]]
           (EnableClientStreamReceiveTimeHistogram [] (NewClientMetrics id []))) =
      clientStreamRecvHistogram (EnableClientStreamReceiveTimeHistogram [] (NewClientMetrics id []))
   \<and> clientStreamSendHistogram
        (EnableClientStreamSendTimeHistogram [WithHistogramBuckets [5]]
           (EnableClientStreamSendTimeHistogram [] (NewClientMetrics id []))) =
      clientStreamSendHistogram (EnableClientStreamSendTimeHistogram [] (NewClientMetrics id []))
   \<and> clientMsgSizeReceivedHistogram
        (EnableMsgSizeReceivedBytesHistogram [WithHistogramBuckets [5]]
           (EnableMsgSizeReceivedBytesHistogram [] (NewClientMetrics id []))) =
      clientMsgSizeReceivedHistogram (EnableMsgSizeReceivedBytesHistogram [] (NewClientMetrics id []))
   \<and> clientMsgSizeSentHistogram
        (EnableMsgSizeSentBytesHistogram [WithHistogramBuckets [5]]
           (EnableMsgSizeSentBytesHistogram [] (NewClientMetrics id []))) =
      clientMsgSizeSentHistogram (EnableMsgSizeSentBytesHistogram [] (NewClientMetrics id []))
   \<and> map_option hBuckets (clientHandledHistogram
        (EnableClientHandlingTimeHistogram [WithHistogramBuckets [1, 2]] (NewClientMetrics id []))) = Some [1, 2]
   \<and> map_option hBuckets (clientStreamRecvHistogram
        (EnableClientStreamReceiveTimeHistogram [WithHistogramBuckets [1, 2]] (NewClientMetrics id []))) = Some [1, 2]
   \<and> map_option hBuckets (clientStreamSendHistogram
        (EnableClientStreamSendTimeHistogram [WithHistogramBuckets [1, 2]] (NewClientMetrics id []))) = Some [1, 2]
   \<and> map_option hBuckets (clientMsgSizeReceivedHistogram
        (EnableMsgSizeReceivedBytesHistogram [WithHistogramBuckets [1, 2]] (NewClientMetrics id []))) = Some [1, 2]
   \<and> map_option hBuckets (clientMsgSizeSentHistogram
        (EnableMsgSizeSentBytesHistogram [WithHistogramBuckets [1, 2]] (NewClientMetrics id []))) = Some [1, 2]"
  using C7_enable_histogram [of NewServerMetrics "[WithHistogramBuckets [1, 2]]" "NewClientMetrics id []"]
    C7_enable_histogram [of "EnableHandlingTimeHistogram [WithHistogramBuckets [1, 2]] NewServerMetrics"
      "[WithHistogramBuckets [5]]" "EnableClientHandlingTimeHistogram [] (NewClientMetrics id [])"]
    C7_enable_histogram [of NewServerMetrics "[WithHistogramBuckets [5]]"
      "EnableClientStreamReceiveTimeHistogram [] (NewClientMetrics id [])"]
    C7_enable_histogram [of NewServerMetrics "[WithHistogramBuckets [5]]"
      "EnableClientStreamSendTimeHistogram [] (NewClientMetrics id [])"]
    C7_enable_histogram [of NewServerMetrics "[WithHistogramBuckets [5]]"
      "EnableMsgSizeReceivedBytesHistogram [] (NewClientMetrics id [])"]
    C7_enable_histogram [of NewServerMetrics "[WithHistogramBuckets [5]]"
      "EnableMsgSizeSentBytesHistogram [] (NewClientMetrics id [])"]
  by (simp add: fresh_flags enabled_after buckets_applied)

subsection \<open>Describe and Collect\<close>

text \<open>
  C8.  On a registry in which every enabled histogram has its vector,
  \<^verbatim>\<open>Describe\<close> sends the descriptors of the four counters and of each enabled
  histogram, in this order, and nothing for a disabled histogram;
  \<^verbatim>\<open>Collect\<close> sends the series of exactly the same families.  The number of
  families is four plus the number of flags that are set.
\<close>

theorem C8_describe_collect:
  "(serverHistogramsPresent m \<longrightarrow>
      ServerMetrics_Describe m dch = Some (dch @ map familyDesc (serverFamilies m))
      \<and> ServerMetrics_Collect m mch = Some (mch @ concat (map familyMetrics (serverFamilies m)))
      \<and> length (serverFamilies m) = 4 + countTrue [serverHandledHistogramEnabled m])
   \<and> (clientHistogramsPresent c \<longrightarrow>
      ClientMetrics_Describe c dch = Some (dch @ map familyDesc (clientFamilies c))
      \<and> ClientMetrics_Collect c mch = Some (mch @ concat (map familyMetrics (clientFamilies c)))
      \<and> length (clientFamilies c) =
          4 + countTrue [clientHandledHistogramEnabled c, clientStreamRecvHistogramEnabled c,
                         clientStreamSendHistogramEnabled c, clientMsgSizeReceivedHistogramEnabled c,
                         clientMsgSizeSentHistogramEnabled c])"
proof -
  have s: "serverHistogramsPresent m \<Longrightarrow>
      length (serverFamilies m) = 4 + countTrue [serverHandledHistogramEnabled m]"
    by (simp add: serverHistogramsPresent_def serverFamilies_def length_enabledFamily countTrue_def)
  have c: "clientHistogramsPresent c \<Longrightarrow>
      length (clientFamilies c) =
          4 + countTrue [clientHandledHistogramEnabled c, clientStreamRecvHistogramEnabled c,
                         clientStreamSendHistogramEnabled c, clientMsgSizeReceivedHistogramEnabled c,
                         clientMsgSizeSentHistogramEnabled c]"
    by (simp add: clientHistogramsPresent_def clientFamilies_def length_enabledFamily countTrue_def)
  show ?thesis
    using s c
    by (simp add: server_Describe_families server_Collect_families client_Describe_families
        client_Collect_families)
qed

text \<open>
  C8 on a fresh server registry, on one with the histogram enabled, and on a client
  registry with one histogram enabled.
\<close>

theorem C8_describe_collect_witness:
  "serverHistogramsPresent (EnableHandlingTimeHistogram [] NewServerMetrics)
   \<and> map_option length (ServerMetrics_Describe (EnableHandlingTimeHistogram [] NewServerMetrics) []) = Some 5
   \<and> serverHistogramsPresent NewServerMetrics
   \<and> map_option length (ServerMetrics_Describe NewServerMetrics []) = Some 4
   \<and> ServerMetrics_Collect NewServerMetrics [] = Some []
   \<and> clientHistogramsPresent (EnableClientStreamSendTimeHistogram [] (NewClientMetrics id []))
   \<and> map_option length
        (ClientMetrics_Describe (EnableClientStreamSendTimeHistogram [] (NewClientMetrics id [])) []) = Some 5"
proof -
  have p1: "serverHistogramsPresent (EnableHandlingTimeHistogram [] NewServerMetrics)"
    by (simp add: present_EnableHandlingTimeHistogram present_NewServerMetrics)
  have p2: "clientHistogramsPresent (EnableClientStreamSendTimeHistogram [] (NewClientMetrics id []))"
    by (simp add: present_client_Enable present_NewClientMetrics)
  have e: "concat (map familyMetrics (serverFamilies NewServerMetrics)) = []"
    by (simp add: serverFamilies_def enabledFamily_def NewServerMetrics_def NewCounterVec_def)
  show ?thesis
    using p1 p2 present_NewServerMetrics e
      C8_describe_collect [of "EnableHandlingTimeHistogram [] NewServerMetrics" "[]" "[]"
        "EnableClientStreamSendTimeHistogram [] (NewClientMetrics id [])"]
      C8_describe_collect [of NewServerMetrics "[]" "[]"
        "EnableClientStreamSendTimeHistogram [] (NewClientMetrics id [])"]
    by (simp add: countTrue_def enabled_after fresh_flags send_enable_other_flags)
qed

subsection \<open>Pre-registration\<close>

text \<open>
  C9.  On a registry in which an enabled histogram has its vector, pre-registration of
  any service enumeration returns; it keeps every series of the registry (no value
  changes, a tuple created by it reads zero, tuples stay unique, and the histogram is
  left alone when it is disabled); afterwards every listed method has a series in the
  started counter, in both message counters, in the histogram if it is enabled, and in the
  handled counter for every code of the table; and running it again on the result
  changes nothing.
\<close>

theorem C9_preregistration:
  "serverHistogramsPresent m \<Longrightarrow>
     \<exists>m'. InitializeMetrics tf codes m server = Some m'
        \<and> registryKept m m'
        \<and> allPreRegistered tf codes m' server
        \<and> InitializeMetrics tf codes m' server = Some m'"
proof -
  assume "serverHistogramsPresent m"
  then obtain m' where run: "InitializeMetrics tf codes m server = Some m'"
    and kept: "registryKept m m'" and pres: "serverHistogramsPresent m'"
    and reg: "allPreRegistered tf codes m' server"
    using InitializeMetrics_run [of m tf codes server] by blast
  have "InitializeMetrics tf codes m' server = Some m'"
    by (rule InitializeMetrics_fixed [OF pres reg])
  with run kept reg show ?thesis by blast
qed

text \<open>
  C9 on a fresh registry, for one unary method and a table of two codes.
\<close>

theorem C9_preregistration_witness:
  "serverHistogramsPresent NewServerMetrics
   \<and> (\<exists>m'. InitializeMetrics (\<lambda>mInfo. Unary) [codes_OK, codes_NotFound] NewServerMetrics
              [(''svc'', \<lparr>Methods = [\<lparr>MethodInfo_Name = ''m'', MethodInfo_IsClientStream = False,
                                      MethodInfo_IsServerStream = False\<rparr>]\<rparr>)] = Some m'
        \<and> hasSeries (cSeries (serverStartedCounter m')) [LType Unary, LStr ''svc'', LStr ''m'']
        \<and> seriesValue (cSeries (serverStartedCounter m')) [LType Unary, LStr ''svc'', LStr ''m''] = 0
        \<and> hasSeries (cSeries (serverHandledCounter m'))
             [LType Unary, LStr ''svc'', LStr ''m'', LCode codes_NotFound]
        \<and> seriesValue (cSeries (serverHandledCounter m'))
             [LType Unary, LStr ''svc'', LStr ''m'', LCode codes_NotFound] = 0
        \<and> serverHandledHistogram m' = None
        \<and> InitializeMetrics (\<lambda>mInfo. Unary) [codes_OK, codes_NotFound] m'
              [(''svc'', \<lparr>Methods = [\<lparr>MethodInfo_Name = ''m'', MethodInfo_IsClientStream = False,
                                      MethodInfo_IsServerStream = False\<rparr>]\<rparr>)] = Some m')"
proof -
  have p: "serverHistogramsPresent NewServerMetrics"
    by (rule present_NewServerMetrics)
  have n: "serverHandledHistogram NewServerMetrics = None"
    by (simp add: NewServerMetrics_def)
  from C9_preregistration [OF p, of "\<lambda>mInfo. Unary" "[codes_OK, codes_NotFound]"
      "[(''svc'', \<lparr>Methods = [\<lparr>MethodInfo_Name = ''m'', MethodInfo_IsClientStream = False,
                                      MethodInfo_IsServerStream = False\<rparr>]\<rparr>)]"]
  obtain m' where run: "InitializeMetrics (\<lambda>mInfo. Unary) [codes_OK, codes_NotFound] NewServerMetrics
              [(''svc'', \<lparr>Methods = [\<lparr>MethodInfo_Name = ''m'', MethodInfo_IsClientStream = False,
                                      MethodInfo_IsServerStream = False\<rparr>]\<rparr>)] = Some m'"
    and kept: "registryKept NewServerMetrics m'"
    and reg: "allPreRegistered (\<lambda>mInfo. Unary) [codes_OK, codes_NotFound] m'
              [(''svc'', \<lparr>Methods = [\<lparr>MethodInfo_Name = ''m'', MethodInfo_IsClientStream = False,
                                      MethodInfo_IsServerStream = False\<rparr>]\<rparr>)]"
    and again: "InitializeMetrics (\<lambda>mInfo. Unary) [codes_OK, codes_NotFound] m'
              [(''svc'', \<lparr>Methods = [\<lparr>MethodInfo_Name = ''m'', MethodInfo_IsClientStream = False,
                                      MethodInfo_IsServerStream = False\<rparr>]\<rparr>)] = Some m'"
    by blast
  have v: "seriesValue (cSeries (serverStartedCounter m')) k = 0"
          "seriesValue (cSeries (serverHandledCounter m')) k = 0" for k
    using kept by (simp_all add: registryKept_def seriesKept_def fresh_server_values)
  have h: "serverHandledHistogram m' = None"
    using kept n by (simp add: registryKept_def fresh_flags)
  have r: "hasSeries (cSeries (serverStartedCounter m')) [LType Unary, LStr ''svc'', LStr ''m'']"
          "hasSeries (cSeries (serverHandledCounter m'))
             [LType Unary, LStr ''svc'', LStr ''m'', LCode codes_NotFound]"
    using reg by (simp_all add: allPreRegistered_def preRegistered_def methodLabels_def)
  show ?thesis
    using p run again v h r by blast
qed

subsection \<open>Enabled histograms are present\<close>

text \<open>
  C10.  In every registry the package can produce, each histogram whose flag is set has
  its vector, so \<^verbatim>\<open>Describe\<close> and \<^verbatim>\<open>Collect\<close> do not panic on it;
  a freshly constructed registry has every flag clear.
\<close>

theorem C10_histograms_present:
  "(reachableServer m \<longrightarrow>
      serverHistogramsPresent m
      \<and> ServerMetrics_Describe m dch \<noteq> None \<and> ServerMetrics_Collect m mch \<noteq> None)
   \<and> (reachableClient c \<longrightarrow>
      clientHistogramsPresent c
      \<and> ClientMetrics_Describe c dch \<noteq> None \<and> ClientMetrics_Collect c mch \<noteq> None)
   \<and> \<not> serverHandledHistogramEnabled NewServerMetrics
   \<and> \<not> clientHandledHistogramEnabled (NewClientMetrics ap b)
   \<and> \<not> clientStreamRecvHistogramEnabled (NewClientMetrics ap b)
   \<and> \<not> clientStreamSendHistogramEnabled (NewClientMetrics ap b)
   \<and> \<not> clientMsgSizeReceivedHistogramEnabled (NewClientMetrics ap b)
   \<and> \<not> clientMsgSizeSentHistogramEnabled (NewClientMetrics ap b)"
proof -
  have s: "reachableServer m \<Longrightarrow> serverHistogramsPresent m
      \<and> ServerMetrics_Describe m dch \<noteq> None \<and> ServerMetrics_Collect m mch \<noteq> None"
    using reachableServer_present [of m]
    by (simp add: server_Describe_families server_Collect_families)
  have c: "reachableClient c \<Longrightarrow> clientHistogramsPresent c
      \<and> ClientMetrics_Describe c dch \<noteq> None \<and> ClientMetrics_Collect c mch \<noteq> None"
    using reachableClient_present [of c]
    by (simp add: client_Describe_families client_Collect_families)
  show ?thesis
    using s c by (simp add: fresh_flags)
qed

text \<open>
  C10 at registries with one histogram enabled.
\<close>

theorem C10_histograms_present_witness:
  "reachableServer (EnableHandlingTimeHistogram [] NewServerMetrics)
   \<and> serverHandledHistogramEnabled (EnableHandlingTimeHistogram [] NewServerMetrics)
   \<and> serverHandledHistogram (EnableHandlingTimeHistogram [] NewServerMetrics) \<noteq> None
   \<and> ServerMetrics_Describe (EnableHandlingTimeHistogram [] NewServerMetrics) [] \<noteq> None
   \<and> ServerMetrics_Collect (EnableHandlingTimeHistogram [] NewServerMetrics) [] \<noteq> None
   \<and> reachableClient (EnableMsgSizeSentBytesHistogram [] (NewClientMetrics id []))
   \<and> clientMsgSizeSentHistogramEnabled (EnableMsgSizeSentBytesHistogram [] (NewClientMetrics id []))
   \<and> clientMsgSizeSentHistogram (EnableMsgSizeSentBytesHistogram [] (NewClientMetrics id [])) \<noteq> None
   \<and> ClientMetrics_Describe (EnableMsgSizeSentBytesHistogram [] (NewClientMetrics id [])) [] \<noteq> None
   \<and> ClientMetrics_Collect (EnableMsgSizeSentBytesHistogram [] (NewClientMetrics id [])) [] \<noteq> None"
proof -
  have rs: "reachableServer (EnableHandlingTimeHistogram [] NewServerMetrics)"
    by (rule rs_enable [OF rs_new])
  have rc: "reachableClient (EnableMsgSizeSentBytesHistogram [] (NewClientMetrics id []))"
    by (rule rc_enable_size_sent [OF rc_new])
  show ?thesis
    using rs rc
      C10_histograms_present [of "EnableHandlingTimeHistogram [] NewServerMetrics" "[]" "[]"
        "EnableMsgSizeSentBytesHistogram [] (NewClientMetrics id [])" id "[]"]
    by (simp add: serverHistogramsPresent_def clientHistogramsPresent_def enabled_after
        del: not_None_eq)
qed

end
